theory Spec2Isabelle
  imports Main "HOL-Library.Word"
begin

section \<open>Data model (include/ObjLoader.hpp)\<close>

text \<open>
  A C++ \<open>int\<close> is a 32-bit two's complement value: \<open>sint\<close> reads it, \<open>-\<close> wraps.
  A \<open>float\<close> is kept abstract as the type variable \<open>'f\<close>: the loader only stores and
  copies floats, it never computes with them.
\<close>

type_synonym cint = "32 word"

text \<open>A C array of exactly three elements, \<open>T a[3]\<close>, read and written at 0, 1, 2.\<close>

datatype 'a array3 = Array3 'a 'a 'a

fun aget :: "'a array3 \<Rightarrow> nat \<Rightarrow> 'a" where
  "aget (Array3 a0 a1 a2) i = (if i = 0 then a0 else if i = 1 then a1 else a2)"

fun aset :: "'a array3 \<Rightarrow> nat \<Rightarrow> 'a \<Rightarrow> 'a array3" where
  "aset (Array3 a0 a1 a2) i e =
     (if i = 0 then Array3 e a1 a2 else if i = 1 then Array3 a0 e a2 else Array3 a0 a1 e)"

fun areverse :: "'a array3 \<Rightarrow> 'a array3" where
  "areverse (Array3 a0 a1 a2) = Array3 a2 a1 a0"

text \<open>
  The structs. Field names carry a prefix where the source's name is a single letter
  (\<open>x\<close>, \<open>u\<close>, ...) or is used by two structs (\<open>nx\<close>, \<open>vertices\<close>): \<open>Vertex.x\<close> is
  \<open>vx\<close>, \<open>TextureCoords.u\<close> is \<open>tu\<close>, \<open>Triangle.vertices\<close> is \<open>tri_vertices\<close>.
\<close>

record 'f Vertex =
  vx :: 'f
  vy :: 'f
  vz :: 'f
  vr :: 'f
  vg :: 'f
  vb :: 'f
  vnx :: 'f
  vny :: 'f
  vnz :: 'f

record 'f TextureCoords =
  tu :: 'f
  tv :: 'f

record 'f Normal =
  nx :: 'f
  ny :: 'f
  nz :: 'f

record 'f Triangle =
  tri_vertices :: "'f Vertex array3"
  tri_normals :: "'f Normal array3"
  tri_textures :: "'f TextureCoords array3"

record Face =
  vertexIndices :: "cint array3"
  textureIndices :: "cint array3"
  normalIndices :: "cint array3"

record 'f ObjLoader =
  modelType :: cint
  vertices :: "'f Vertex list"
  textures :: "'f TextureCoords list"
  normals :: "'f Normal list"
  faces :: "Face list"
  textureName :: string

section \<open>The C++ stream operations the loader calls\<close>

text \<open>
  A \<open>std::istringstream\<close> is the characters not yet read and the two state bits the
  loader's calls can set. Nothing in the loader clears a bit.
\<close>

record istringstream =
  buf :: string
  eofbit :: bool
  failbit :: bool

definition istringstream :: "string \<Rightarrow> istringstream" where
  "istringstream s = \<lparr>buf = s, eofbit = False, failbit = False\<rparr>"

definition good :: "istringstream \<Rightarrow> bool" where
  "good s = (if eofbit s then False else if failbit s then False else True)"

text \<open>\<open>isspace\<close> in the "C" locale: space, and the controls 9 to 13.\<close>

definition isspace :: "char \<Rightarrow> bool" where
  "isspace c = (c = CHR '' '' \<or> c = CHR 0x09 \<or> c = CHR 0x0A \<or> c = CHR 0x0B
     \<or> c = CHR 0x0C \<or> c = CHR 0x0D)"

definition nonspace :: "char \<Rightarrow> bool" where
  "nonspace c = (if isspace c then False else True)"

definition isdigit :: "char \<Rightarrow> bool" where
  "isdigit c = (c \<in> set ''0123456789'')"

definition digit_val :: "char \<Rightarrow> int" where
  "digit_val c = int (of_char c) - 48"

text \<open>
  A formatted extraction \<open>is >> val\<close>. The sentry comes first: on a stream that is not
  good it sets failbit; otherwise it skips white space, and at the end of the input it
  sets eofbit and failbit. In both cases \<open>val\<close> keeps the value it had. Only then the
  conversion \<open>scan\<close> runs on the remaining characters; it gives the value stored, the
  characters left, and whether it succeeded. eofbit is set when the conversion read up
  to the end of the input.
\<close>

definition extraction ::
  "(string \<Rightarrow> 'a \<times> string \<times> bool) \<Rightarrow> istringstream \<Rightarrow> 'a \<Rightarrow> istringstream \<times> 'a" where
  "extraction scan s old =
     (if good s then
        (let b = dropWhile isspace (buf s) in
         if b = [] then (\<lparr>buf = [], eofbit = True, failbit = True\<rparr>, old)
         else (case scan b of (val, rest, ok) \<Rightarrow>
                 (\<lparr>buf = rest, eofbit = (rest = []), failbit = (if ok then False else True)\<rparr>,
                  val)))
      else (s\<lparr>failbit := True\<rparr>, old))"

text \<open>\<open>is >> str\<close> for a \<open>std::string\<close>: the characters up to the next white space.\<close>

definition scan_string :: "string \<Rightarrow> string \<times> string \<times> bool" where
  "scan_string b = (takeWhile nonspace b, dropWhile nonspace b, True)"

text \<open>
  \<open>is >> n\<close> for an \<open>int\<close>: an optional sign and decimal digits. With no digit the
  conversion fails and stores 0; a value outside the range of \<open>int\<close> fails and stores
  the nearest bound.
\<close>

definition scan_int :: "string \<Rightarrow> cint \<times> string \<times> bool" where
  "scan_int b =
     (let signed = (case b of [] \<Rightarrow> False | c # _ \<Rightarrow> c = CHR ''-'' \<or> c = CHR ''+'');
          negative = (case b of [] \<Rightarrow> False | c # _ \<Rightarrow> c = CHR ''-'');
          b1 = (if signed then tl b else b);
          ds = takeWhile isdigit b1;
          rest = dropWhile isdigit b1;
          n = foldl (\<lambda>a c. 10 * a + digit_val c) 0 ds;
          val = (if negative then - n else n)
      in if ds = [] then (0, rest, False)
         else if 2147483647 < val then (2147483647, rest, False)
         else if val < - 2147483648 then (- 2147483648, rest, False)
         else (word_of_int val, rest, True))"

text \<open>\<open>is.peek()\<close>: the next character without reading it; \<open>None\<close> is \<open>EOF\<close>.\<close>

definition peek :: "istringstream \<Rightarrow> istringstream \<times> char option" where
  "peek s =
     (if good s then
        (case buf s of [] \<Rightarrow> (s\<lparr>eofbit := True\<rparr>, None) | c # _ \<Rightarrow> (s, Some c))
      else (s\<lparr>failbit := True\<rparr>, None))"

text \<open>\<open>is.get()\<close>: reads one character.\<close>

definition get :: "istringstream \<Rightarrow> istringstream \<times> char option" where
  "get s =
     (if good s then
        (case buf s of
           [] \<Rightarrow> (s\<lparr>eofbit := True, failbit := True\<rparr>, None)
         | c # cs \<Rightarrow> (s\<lparr>buf := cs\<rparr>, Some c))
      else (s\<lparr>failbit := True\<rparr>, None))"

text \<open>
  \<open>std::getline(file, line)\<close> on the characters of a file not yet read: with nothing
  left it fails; otherwise it delivers the characters before the next newline and
  reads past that newline.
\<close>

definition getline :: "string \<Rightarrow> (string \<times> string) option" where
  "getline s =
     (if s = [] then None
      else Some (takeWhile (\<lambda>c. c \<noteq> CHR 0x0A) s, drop 1 (dropWhile (\<lambda>c. c \<noteq> CHR 0x0A) s)))"

text \<open>
  The lines that \<open>while (std::getline(file, line))\<close> delivers, in order. A file that
  could not be opened (\<open>None\<close>) delivers none: the stream is in a failed state from
  the start.
\<close>

function getlines :: "string \<Rightarrow> string list" where
  "getlines s = (case getline s of None \<Rightarrow> [] | Some (l, rest) \<Rightarrow> l # getlines rest)"
  by pat_completeness auto
termination
proof (relation "measure length")
  show "wf (measure length)" by simp
next
  fix s :: string and p l rest
  assume a: "getline s = Some p" and p: "(l, rest) = p"
  from a p have ne: "s \<noteq> []" and r: "rest = drop 1 (dropWhile (\<lambda>c. c \<noteq> CHR 0x0A) s)"
    by (auto simp: getline_def split: if_splits)
  have "length (dropWhile (\<lambda>c. c \<noteq> CHR 0x0A) s) \<le> length s"
    by (rule length_dropWhile_le)
  moreover have "0 < length s" using ne by simp
  moreover have "length rest = length (dropWhile (\<lambda>c. c \<noteq> CHR 0x0A) s) - 1"
    using r by simp
  ultimately have "length rest < length s" by linarith
  then show "(rest, s) \<in> measure length" by simp
qed

declare getlines.simps [simp del]

definition file_lines :: "string option \<Rightarrow> string list" where
  "file_lines f = (case f of None \<Rightarrow> [] | Some s \<Rightarrow> getlines s)"

text \<open>
  \<open>s.find_last_of(c)\<close> (\<open>None\<close> is \<open>npos\<close>) and \<open>s.substr(0, n)\<close>, whose count is
  cut to the length of \<open>s\<close>.
\<close>

fun find_last_of :: "string \<Rightarrow> char \<Rightarrow> nat option" where
  "find_last_of [] c = None"
| "find_last_of (a # s) c =
     (case find_last_of s c of
        Some n \<Rightarrow> Some (Suc n)
      | None \<Rightarrow> if a = c then Some 0 else None)"

definition substr0 :: "string \<Rightarrow> nat option \<Rightarrow> string" where
  "substr0 s n = (case n of None \<Rightarrow> s | Some k \<Rightarrow> take k s)"

section \<open>What the translation unit takes from outside\<close>

text \<open>
  The block-scope objects \<open>Vertex vertex\<close>, \<open>TextureCoords texture\<close>,
  \<open>Normal normal\<close> and \<open>Face face\<close> of \<open>load\<close> are declared without an
  initialiser: what they hold before the first assignment is not fixed by the program.
\<close>

record 'f locals =
  l_vertex :: "'f Vertex"
  l_texture :: "'f TextureCoords"
  l_normal :: "'f Normal"
  l_face :: Face

text \<open>
  The surroundings of one run: the files that can be opened, by path, with their
  contents; the library's conversion of characters to a \<open>float\<close> (the value stored,
  the characters left, success); and the contents of the uninitialised locals at each
  iteration of the line loop.
\<close>

record 'f world =
  files :: "string \<Rightarrow> string option"
  float_conv :: "string \<Rightarrow> 'f \<times> string \<times> bool"
  indeterminate :: "nat \<Rightarrow> 'f locals"

section \<open>ObjLoader::load (src/ObjLoader.cpp)\<close>

text \<open>\<open>iss >> vertex.x >> vertex.y >> vertex.z\<close> and its two siblings.\<close>

definition read_Vertex ::
  "(string \<Rightarrow> 'f \<times> string \<times> bool) \<Rightarrow> istringstream \<Rightarrow> 'f Vertex \<Rightarrow> 'f Vertex" where
  "read_Vertex conv iss vertex =
     (case extraction conv iss (vx vertex) of (s1, a) \<Rightarrow>
      case extraction conv s1 (vy vertex) of (s2, b) \<Rightarrow>
      case extraction conv s2 (vz vertex) of (s3, c) \<Rightarrow>
        vertex\<lparr>vx := a, vy := b, vz := c\<rparr>)"

definition read_TextureCoords ::
  "(string \<Rightarrow> 'f \<times> string \<times> bool) \<Rightarrow> istringstream \<Rightarrow> 'f TextureCoords
     \<Rightarrow> 'f TextureCoords" where
  "read_TextureCoords conv iss texture =
     (case extraction conv iss (tu texture) of (s1, a) \<Rightarrow>
      case extraction conv s1 (tv texture) of (s2, b) \<Rightarrow>
        texture\<lparr>tu := a, tv := b\<rparr>)"

definition read_Normal ::
  "(string \<Rightarrow> 'f \<times> string \<times> bool) \<Rightarrow> istringstream \<Rightarrow> 'f Normal \<Rightarrow> 'f Normal" where
  "read_Normal conv iss normal =
     (case extraction conv iss (nx normal) of (s1, a) \<Rightarrow>
      case extraction conv s1 (ny normal) of (s2, b) \<Rightarrow>
      case extraction conv s2 (nz normal) of (s3, c) \<Rightarrow>
        normal\<lparr>nx := a, ny := b, nz := c\<rparr>)"

text \<open>
  The body of \<open>if (iss.peek() == '/')\<close>: the slash is read; unless a second slash
  follows at once, the texture index is read; if a slash follows then, it is read and
  the normal index after it.
\<close>

definition read_slashes :: "istringstream \<times> Face \<Rightarrow> nat \<Rightarrow> istringstream \<times> Face" where
  "read_slashes sf i =
     (case sf of (s0, face0) \<Rightarrow>
      case get s0 of (s1, c1) \<Rightarrow>
      case peek s1 of (s2, c2) \<Rightarrow>
      case (if c2 = Some (CHR ''/'') then (s2, face0)
            else (case extraction scan_int s2 (aget (textureIndices face0) i) of (s, t) \<Rightarrow>
                    (s, face0\<lparr>textureIndices := aset (textureIndices face0) i t\<rparr>)))
      of (s3, face3) \<Rightarrow>
      case peek s3 of (s4, c4) \<Rightarrow>
        if c4 = Some (CHR ''/'') then
          (case get s4 of (s5, c5) \<Rightarrow>
           case extraction scan_int s5 (aget (normalIndices face3) i) of (s6, n) \<Rightarrow>
             (s6, face3\<lparr>normalIndices := aset (normalIndices face3) i n\<rparr>))
        else (s4, face3))"

text \<open>The three decrements that end each round: "obj indices start at 1".\<close>

definition decrement :: "Face \<Rightarrow> nat \<Rightarrow> Face" where
  "decrement face i =
     face\<lparr>vertexIndices := aset (vertexIndices face) i (aget (vertexIndices face) i - 1),
          textureIndices := aset (textureIndices face) i (aget (textureIndices face) i - 1),
          normalIndices := aset (normalIndices face) i (aget (normalIndices face) i - 1)\<rparr>"

text \<open>One round of \<open>for (int i = 0; i < 3; ++i)\<close> in the \<open>f\<close> branch.\<close>

definition read_corner :: "istringstream \<times> Face \<Rightarrow> nat \<Rightarrow> istringstream \<times> Face" where
  "read_corner sf i =
     (case sf of (s0, face0) \<Rightarrow>
      case extraction scan_int s0 (aget (vertexIndices face0) i) of (s1, p) \<Rightarrow>
      case peek s1 of (s2, c2) \<Rightarrow>
      case (if c2 = Some (CHR ''/'')
            then read_slashes (s2, face0\<lparr>vertexIndices := aset (vertexIndices face0) i p\<rparr>) i
            else (s2, face0\<lparr>vertexIndices := aset (vertexIndices face0) i p\<rparr>))
      of (s3, face3) \<Rightarrow> (s3, decrement face3 i))"

definition read_Face :: "istringstream \<Rightarrow> Face \<Rightarrow> Face" where
  "read_Face iss face = snd (foldl read_corner (iss, face) [0, 1, 2])"

text \<open>
  The state of the line loop: the object under construction, the two strings declared
  before the loop (the local \<open>textureName\<close> hides the member of the same name), and
  the variable \<open>gTextureName\<close> at namespace scope, which outlives every loader.
\<close>

record 'f load_state =
  self :: "'f ObjLoader"
  mtlFilename :: string
  textureName_local :: string
  gTextureName :: string

text \<open>
  The loop over the lines of the material file, on the pair of the local
  \<open>textureName\<close> and \<open>gTextureName\<close>. The first line whose leading token is
  \<open>map_Kd\<close> assigns both and breaks.
\<close>

fun mtl_loop :: "string \<Rightarrow> string list \<Rightarrow> string \<times> string \<Rightarrow> string \<times> string" where
  "mtl_loop directory [] tg = tg"
| "mtl_loop directory (mtlLine # rest) tg =
     (case extraction scan_string (istringstream mtlLine) [] of (mtlIss, mtlPrefix) \<Rightarrow>
        if mtlPrefix = ''map_Kd'' then
          (case extraction scan_string mtlIss (fst tg) of (s, name) \<Rightarrow>
             (name, directory @ ''/'' @ name))
        else mtl_loop directory rest tg)"

definition read_mtllib ::
  "(string \<Rightarrow> string option) \<Rightarrow> string \<Rightarrow> istringstream \<Rightarrow> 'f load_state \<Rightarrow> 'f load_state" where
  "read_mtllib fs directory iss st =
     (case extraction scan_string iss (mtlFilename st) of (s, name) \<Rightarrow>
      case mtl_loop directory (file_lines (fs (directory @ ''/'' @ name)))
             (textureName_local st, gTextureName st) of (t, g) \<Rightarrow>
        st\<lparr>mtlFilename := name, textureName_local := t, gTextureName := g\<rparr>)"

text \<open>The token that \<open>iss >> prefix\<close> reads from a line (empty if there is none).\<close>

definition leading_token :: "string \<Rightarrow> string" where
  "leading_token line = snd (extraction scan_string (istringstream line) [])"

text \<open>The body of the line loop, at line number \<open>k\<close> (from 0).\<close>

definition load_line :: "'f world \<Rightarrow> string \<Rightarrow> nat \<Rightarrow> 'f load_state \<Rightarrow> string \<Rightarrow> 'f load_state" where
  "load_line w directory k st line =
     (case extraction scan_string (istringstream line) [] of (iss, prefix) \<Rightarrow>
        if prefix = ''v'' then
          st\<lparr>self := (self st)\<lparr>vertices := vertices (self st) @
            [read_Vertex (float_conv w) iss (l_vertex (indeterminate w k))]\<rparr>\<rparr>
        else if prefix = ''vt'' then
          st\<lparr>self := (self st)\<lparr>textures := textures (self st) @
            [read_TextureCoords (float_conv w) iss (l_texture (indeterminate w k))]\<rparr>\<rparr>
        else if prefix = ''vn'' then
          st\<lparr>self := (self st)\<lparr>normals := normals (self st) @
            [read_Normal (float_conv w) iss (l_normal (indeterminate w k))]\<rparr>\<rparr>
        else if prefix = ''f'' then
          st\<lparr>self := (self st)\<lparr>faces := faces (self st) @
            [read_Face iss (l_face (indeterminate w k))]\<rparr>\<rparr>
        else if prefix = ''mtllib'' then read_mtllib (files w) directory iss st
        else st)"

fun load_lines ::
  "'f world \<Rightarrow> string \<Rightarrow> nat \<Rightarrow> 'f load_state \<Rightarrow> string list \<Rightarrow> 'f load_state" where
  "load_lines w directory k st [] = st"
| "load_lines w directory k st (line # rest) =
     load_lines w directory (Suc k) (load_line w directory k st line) rest"

text \<open>\<open>filename.substr(0, filename.find_last_of('/'))\<close>.\<close>

definition directory_of :: "string \<Rightarrow> string" where
  "directory_of filename = substr0 filename (find_last_of filename (CHR ''/''))"

text \<open>
  \<open>load\<close> on the object and the global, giving both back. A primary file that cannot
  be opened delivers no line.
\<close>

definition load :: "'f world \<Rightarrow> string \<Rightarrow> 'f ObjLoader \<times> string \<Rightarrow> 'f ObjLoader \<times> string" where
  "load w filename og =
     (case og of (obj, g) \<Rightarrow>
      case load_lines w (directory_of filename) 0
             \<lparr>self = obj, mtlFilename = [], textureName_local = [], gTextureName = g\<rparr>
             (file_lines (files w filename)) of st \<Rightarrow>
        (self st, gTextureName st))"

text \<open>
  The constructor, on the value of \<open>gTextureName\<close> at the call; it gives the new
  object and the value of \<open>gTextureName\<close> it leaves. The vectors and the string of
  a new object are empty. \<open>modelType\<close> holds no fixed value until the last statement
  assigns it; \<open>load\<close> does not read it.
\<close>

definition ObjLoader_new :: "'f world \<Rightarrow> string \<Rightarrow> cint \<Rightarrow> string \<Rightarrow> 'f ObjLoader \<times> string" where
  "ObjLoader_new w filename type g =
     (case load w filename
             (\<lparr>modelType = type, vertices = [], textures = [], normals = [], faces = [],
               textureName = []\<rparr>, g) of (obj, g1) \<Rightarrow>
        (obj\<lparr>textureName := g1, modelType := type\<rparr>, g1))"

definition getTextureName :: "'f ObjLoader \<Rightarrow> string" where
  "getTextureName obj = textureName obj"

definition getVertices :: "'f ObjLoader \<Rightarrow> 'f Vertex list" where
  "getVertices obj = vertices obj"

definition getTextures :: "'f ObjLoader \<Rightarrow> 'f TextureCoords list" where
  "getTextures obj = textures obj"

definition getNormals :: "'f ObjLoader \<Rightarrow> 'f Normal list" where
  "getNormals obj = normals obj"

section \<open>ObjLoader::getTriangles\<close>

text \<open>
  \<open>vec[i]\<close> with an \<open>int\<close> index: the index is converted to the unsigned
  \<open>size_type\<close>, so a negative one becomes larger than any size. \<open>operator[]\<close> does not
  check: outside the vector the access has no defined result (\<open>None\<close>).
\<close>

definition subscript :: "'a list \<Rightarrow> cint \<Rightarrow> 'a option" where
  "subscript xs i =
     (if 0 \<le> sint i \<and> nat (sint i) < length xs then Some (xs ! nat (sint i)) else None)"

text \<open>
  What a call of the assembler can come to. The source's return type is
  \<open>std::vector<Triangle>\<close>; \<open>AddressingError\<close> is the failure value the
  specification names, with the attribute kind, the face index and the corner index.
\<close>

datatype AttrKind = Position | TextureCoordinate | NormalVector

datatype 'f assembly =
  Triangles "'f Triangle list"
  | AddressingError AttrKind nat nat
  | UndefinedBehaviour

text \<open>
  One round of the inner loop: the three reads of corner \<open>i\<close>, in the source's order
  (position, normal, texture coordinate).
\<close>

definition resolve_corner ::
  "'f ObjLoader \<Rightarrow> Face \<Rightarrow> nat \<Rightarrow> ('f Vertex \<times> 'f Normal \<times> 'f TextureCoords) option" where
  "resolve_corner obj face i =
     (case subscript (vertices obj) (aget (vertexIndices face) i) of
        None \<Rightarrow> None
      | Some p \<Rightarrow>
          (case subscript (normals obj) (aget (normalIndices face) i) of
             None \<Rightarrow> None
           | Some n \<Rightarrow>
               (case subscript (textures obj) (aget (textureIndices face) i) of
                  None \<Rightarrow> None
                | Some t \<Rightarrow> Some (p, n, t))))"

text \<open>
  The triangle of one face. All nine slots of the local \<open>Triangle triangle\<close> are
  assigned, corner 0 first, so the triangle is built from the three resolved corners.
\<close>

definition face_triangle :: "'f ObjLoader \<Rightarrow> Face \<Rightarrow> 'f Triangle option" where
  "face_triangle obj face =
     (case resolve_corner obj face 0 of
        None \<Rightarrow> None
      | Some (p0, n0, t0) \<Rightarrow>
          (case resolve_corner obj face 1 of
             None \<Rightarrow> None
           | Some (p1, n1, t1) \<Rightarrow>
               (case resolve_corner obj face 2 of
                  None \<Rightarrow> None
                | Some (p2, n2, t2) \<Rightarrow>
                    Some \<lparr>tri_vertices = Array3 p0 p1 p2, tri_normals = Array3 n0 n1 n2,
                          tri_textures = Array3 t0 t1 t2\<rparr>)))"

fun triangles_loop :: "'f ObjLoader \<Rightarrow> Face list \<Rightarrow> 'f Triangle list \<Rightarrow> 'f assembly" where
  "triangles_loop obj [] triangles = Triangles triangles"
| "triangles_loop obj (face # rest) triangles =
     (case face_triangle obj face of
        None \<Rightarrow> UndefinedBehaviour
      | Some triangle \<Rightarrow> triangles_loop obj rest (triangles @ [triangle]))"

definition getTriangles :: "'f ObjLoader \<Rightarrow> 'f assembly" where
  "getTriangles obj = triangles_loop obj (faces obj) []"

section \<open>Notions used to state the properties\<close>

text \<open>A token: a non-empty run of characters without white space.\<close>

definition is_token :: "string \<Rightarrow> bool" where
  "is_token t = (if t = [] then False else list_all nonspace t)"

text \<open>A face and a triangle with their three corners in the opposite order.\<close>

definition reverse_face :: "Face \<Rightarrow> Face" where
  "reverse_face face =
     \<lparr>vertexIndices = areverse (vertexIndices face),
      textureIndices = areverse (textureIndices face),
      normalIndices = areverse (normalIndices face)\<rparr>"

definition reverse_triangle :: "'f Triangle \<Rightarrow> 'f Triangle" where
  "reverse_triangle t =
     \<lparr>tri_vertices = areverse (tri_vertices t), tri_normals = areverse (tri_normals t),
      tri_textures = areverse (tri_textures t)\<rparr>"

text \<open>An index that \<open>operator[]\<close> would use outside the vector.\<close>

definition out_of_range :: "'a list \<Rightarrow> cint \<Rightarrow> bool" where
  "out_of_range xs i = (if 0 \<le> sint i \<and> nat (sint i) < length xs then False else True)"

text \<open>
  Corner \<open>i\<close> of a face addresses an entry of each of the three pools, and a model
  does so at every corner of every face.
\<close>

definition corner_in_range :: "'f ObjLoader \<Rightarrow> Face \<Rightarrow> nat \<Rightarrow> bool" where
  "corner_in_range obj face i =
     (if out_of_range (vertices obj) (aget (vertexIndices face) i) then False
      else if out_of_range (normals obj) (aget (normalIndices face) i) then False
      else if out_of_range (textures obj) (aget (textureIndices face) i) then False
      else True)"

definition all_in_range :: "'f ObjLoader \<Rightarrow> bool" where
  "all_in_range obj =
     list_all (\<lambda>face. list_all (corner_in_range obj face) [0, 1, 2]) (faces obj)"

text \<open>
  The triangle a face stands for: at corner 0, 1, 2 the pool entries found at the
  indices of corner 0, 1, 2 of the face, read with the list's own indexing.
\<close>

definition resolved_triangle :: "'f ObjLoader \<Rightarrow> Face \<Rightarrow> 'f Triangle" where
  "resolved_triangle obj face =
     \<lparr>tri_vertices =
        Array3 (vertices obj ! nat (sint (aget (vertexIndices face) 0)))
               (vertices obj ! nat (sint (aget (vertexIndices face) 1)))
               (vertices obj ! nat (sint (aget (vertexIndices face) 2))),
      tri_normals =
        Array3 (normals obj ! nat (sint (aget (normalIndices face) 0)))
               (normals obj ! nat (sint (aget (normalIndices face) 1)))
               (normals obj ! nat (sint (aget (normalIndices face) 2))),
      tri_textures =
        Array3 (textures obj ! nat (sint (aget (textureIndices face) 0)))
               (textures obj ! nat (sint (aget (textureIndices face) 1)))
               (textures obj ! nat (sint (aget (textureIndices face) 2)))\<rparr>"

text \<open>The triangles of an outcome that returned (none otherwise).\<close>

fun returned :: "'f assembly \<Rightarrow> 'f Triangle list" where
  "returned (Triangles ts) = ts"
| "returned (AddressingError kind faceIndex cornerIndex) = []"
| "returned UndefinedBehaviour = []"

text \<open>
  What a run does to \<open>gTextureName\<close>: it leaves the value it found (\<open>None\<close>) or
  assigns one that does not depend on the value it found (\<open>Some\<close>).
\<close>

definition assigned :: "string option \<Rightarrow> string \<Rightarrow> string" where
  "assigned c g = (case c of None \<Rightarrow> g | Some v \<Rightarrow> v)"

section \<open>Sample surroundings for concrete runs\<close>

text \<open>
  A stand-in for the library's float conversion (floats are read as decimal integers),
  uninitialised locals that hold \<open>j\<close> in each of their fields, and a few files.
\<close>

definition sample_locals :: "cint \<Rightarrow> cint locals" where
  "sample_locals j =
     \<lparr>l_vertex = \<lparr>vx = j, vy = j, vz = j, vr = j, vg = j, vb = j, vnx = j, vny = j, vnz = j\<rparr>,
      l_texture = \<lparr>tu = j, tv = j\<rparr>,
      l_normal = \<lparr>nx = j, ny = j, nz = j\<rparr>,
      l_face = \<lparr>vertexIndices = Array3 j j j, textureIndices = Array3 j j j,
                normalIndices = Array3 j j j\<rparr>\<rparr>"

definition sample_vertex :: "cint \<Rightarrow> cint \<Rightarrow> cint \<Rightarrow> cint \<Rightarrow> cint Vertex" where
  "sample_vertex j a b c =
     \<lparr>vx = a, vy = b, vz = c, vr = j, vg = j, vb = j, vnx = j, vny = j, vnz = j\<rparr>"

definition newline :: string where
  "newline = [CHR 0x0A]"

definition sample_files :: "string \<Rightarrow> string option" where
  "sample_files = map_of
     [(''assets/cube.obj'',
         ''# cube'' @ newline @ newline @ ''mtllib m.mtl'' @ newline @
         ''v 0 0 0'' @ newline @ ''v 1 0 0'' @ newline @ ''v 0 1 0'' @ newline @
         ''vt 0 0'' @ newline @ ''vn 0 0 1'' @ newline @
         ''usemtl wood'' @ newline @ ''f 1/1/1 2/1/1 3/1/1'' @ newline),
      (''assets/m.mtl'',
         ''newmtl wood'' @ newline @ ''map_Kd wood.png'' @ newline @
         ''map_Kd other.png'' @ newline),
      (''assets/empty.mtl'', ''newmtl stone'' @ newline),
      (''plain/rock.obj'',
         ''v 0 0 0'' @ newline @ ''vt 0 0'' @ newline @ ''vn 0 0 1'' @ newline @
         ''f 1/1/1 1/1/1 1/1/1'' @ newline),
      (''plain/lost.obj'', ''mtllib nowhere.mtl'' @ newline @ ''v 0 0 0'' @ newline),
      (''assets/stone.obj'', ''mtllib empty.mtl'' @ newline @ ''v 0 0 0'' @ newline),
      (''plain/far.obj'',
         ''v 0 0 0'' @ newline @ ''v 1 0 0'' @ newline @ ''v 0 1 0'' @ newline @
         ''vt 0 0'' @ newline @ ''vn 0 0 1'' @ newline @
         ''f 99/1/1 1/1/1 2/1/1'' @ newline),
      (''plain/bare.obj'',
         ''v 0 0 0'' @ newline @ ''v 1 0 0'' @ newline @ ''v 0 1 0'' @ newline @
         ''vt 5 6'' @ newline @ ''vn 0 0 1'' @ newline @
         ''f 1 2 3'' @ newline),
      (''cube.obj'', ''mtllib m.mtl'' @ newline @ ''v 0 0 0'' @ newline),
      (''m.mtl'', ''map_Kd wood.png'' @ newline),
      (''plain/turn.obj'',
         ''v 0 0 0'' @ newline @ ''v 1 0 0'' @ newline @ ''v 0 1 0'' @ newline @
         ''vt 5 6'' @ newline @ ''vn 0 0 1'' @ newline @
         ''f 1 2 3'' @ newline @ ''f 3 2 1'' @ newline),
      (''plain/short.obj'', ''v 1 2'' @ newline @ ''vt x'' @ newline @ ''vn'' @ newline)]"

definition sample_world :: "cint \<Rightarrow> cint world" where
  "sample_world j =
     \<lparr>files = sample_files, float_conv = scan_int, indeterminate = (\<lambda>k. sample_locals j)\<rparr>"

section \<open>The line loop, line by line\<close>

lemma read_mtllib_self: "self (read_mtllib fs d iss st) = self st"
  by (simp add: read_mtllib_def split: prod.splits)

lemma load_line_vertices:
  "length (vertices (self (load_line w d k st l))) =
     length (vertices (self st)) + (if leading_token l = ''v'' then 1 else 0)"
  by (simp add: load_line_def leading_token_def read_mtllib_self split: prod.splits)

lemma load_line_textures:
  "length (textures (self (load_line w d k st l))) =
     length (textures (self st)) + (if leading_token l = ''vt'' then 1 else 0)"
  by (simp add: load_line_def leading_token_def read_mtllib_self split: prod.splits)

lemma load_line_normals:
  "length (normals (self (load_line w d k st l))) =
     length (normals (self st)) + (if leading_token l = ''vn'' then 1 else 0)"
  by (simp add: load_line_def leading_token_def read_mtllib_self split: prod.splits)

lemma load_line_faces:
  "length (faces (self (load_line w d k st l))) =
     length (faces (self st)) + (if leading_token l = ''f'' then 1 else 0)"
  by (simp add: load_line_def leading_token_def read_mtllib_self split: prod.splits)

lemma load_lines_vertices:
  "length (vertices (self (load_lines w d k st ls))) =
     length (vertices (self st)) + length (filter (\<lambda>l. leading_token l = ''v'') ls)"
  by (induction ls arbitrary: k st) (simp_all add: load_line_vertices)

lemma load_lines_textures:
  "length (textures (self (load_lines w d k st ls))) =
     length (textures (self st)) + length (filter (\<lambda>l. leading_token l = ''vt'') ls)"
  by (induction ls arbitrary: k st) (simp_all add: load_line_textures)

lemma load_lines_normals:
  "length (normals (self (load_lines w d k st ls))) =
     length (normals (self st)) + length (filter (\<lambda>l. leading_token l = ''vn'') ls)"
  by (induction ls arbitrary: k st) (simp_all add: load_line_normals)

lemma load_lines_faces:
  "length (faces (self (load_lines w d k st ls))) =
     length (faces (self st)) + length (filter (\<lambda>l. leading_token l = ''f'') ls)"
  by (induction ls arbitrary: k st) (simp_all add: load_line_faces)

lemma load_line_other_self:
  "leading_token l \<notin> set [''v'', ''vt'', ''vn'', ''f''] \<Longrightarrow>
     self (load_line w d k st l) = self st"
  by (auto simp: load_line_def leading_token_def read_mtllib_self split: prod.splits)

lemma new_fields:
  "vertices (fst (ObjLoader_new w f t g)) =
     vertices (self (load_lines w (directory_of f) 0
       \<lparr>self = \<lparr>modelType = t, vertices = [], textures = [], normals = [], faces = [],
                 textureName = []\<rparr>,
        mtlFilename = [], textureName_local = [], gTextureName = g\<rparr>
       (file_lines (files w f))))"
  "textures (fst (ObjLoader_new w f t g)) =
     textures (self (load_lines w (directory_of f) 0
       \<lparr>self = \<lparr>modelType = t, vertices = [], textures = [], normals = [], faces = [],
                 textureName = []\<rparr>,
        mtlFilename = [], textureName_local = [], gTextureName = g\<rparr>
       (file_lines (files w f))))"
  "normals (fst (ObjLoader_new w f t g)) =
     normals (self (load_lines w (directory_of f) 0
       \<lparr>self = \<lparr>modelType = t, vertices = [], textures = [], normals = [], faces = [],
                 textureName = []\<rparr>,
        mtlFilename = [], textureName_local = [], gTextureName = g\<rparr>
       (file_lines (files w f))))"
  "faces (fst (ObjLoader_new w f t g)) =
     faces (self (load_lines w (directory_of f) 0
       \<lparr>self = \<lparr>modelType = t, vertices = [], textures = [], normals = [], faces = [],
                 textureName = []\<rparr>,
        mtlFilename = [], textureName_local = [], gTextureName = g\<rparr>
       (file_lines (files w f))))"
  by (simp_all add: ObjLoader_new_def load_def split: prod.splits)

text \<open>
  C7. A loader built from a file has as many positions, texture coordinates, normals and
  faces as the file has lines whose leading token is \<open>v\<close>, \<open>vt\<close>, \<open>vn\<close> and
  \<open>f\<close>; a line with any other leading token (a blank line and a \<open>#\<close> comment
  among them) leaves the object, so all pools and the face list, as it was.
\<close>

theorem C7_pool_sizes:
  "length (getVertices (fst (ObjLoader_new w filename type g))) =
     length (filter (\<lambda>l. leading_token l = ''v'') (file_lines (files w filename)))
   \<and> length (getTextures (fst (ObjLoader_new w filename type g))) =
     length (filter (\<lambda>l. leading_token l = ''vt'') (file_lines (files w filename)))
   \<and> length (getNormals (fst (ObjLoader_new w filename type g))) =
     length (filter (\<lambda>l. leading_token l = ''vn'') (file_lines (files w filename)))
   \<and> length (faces (fst (ObjLoader_new w filename type g))) =
     length (filter (\<lambda>l. leading_token l = ''f'') (file_lines (files w filename)))
   \<and> (leading_token line \<notin> set [''v'', ''vt'', ''vn'', ''f''] \<longrightarrow>
        self (load_line w d k st line) = self st)"
proof -
  have "length (getVertices (fst (ObjLoader_new w filename type g))) =
     length (filter (\<lambda>l. leading_token l = ''v'') (file_lines (files w filename)))"
    by (simp add: getVertices_def new_fields load_lines_vertices)
  moreover have "length (getTextures (fst (ObjLoader_new w filename type g))) =
     length (filter (\<lambda>l. leading_token l = ''vt'') (file_lines (files w filename)))"
    by (simp add: getTextures_def new_fields load_lines_textures)
  moreover have "length (getNormals (fst (ObjLoader_new w filename type g))) =
     length (filter (\<lambda>l. leading_token l = ''vn'') (file_lines (files w filename)))"
    by (simp add: getNormals_def new_fields load_lines_normals)
  moreover have "length (faces (fst (ObjLoader_new w filename type g))) =
     length (filter (\<lambda>l. leading_token l = ''f'') (file_lines (files w filename)))"
    by (simp add: new_fields load_lines_faces)
  moreover have "leading_token line \<notin> set [''v'', ''vt'', ''vn'', ''f''] \<longrightarrow>
        self (load_line w d k st line) = self st"
    using load_line_other_self by blast
  ultimately show ?thesis by blast
qed

theorem C7_pool_sizes_witness:
  "length (getVertices (fst (ObjLoader_new (sample_world 7) ''assets/cube.obj'' 3 []))) = 3
   \<and> length (getTextures (fst (ObjLoader_new (sample_world 7) ''assets/cube.obj'' 3 []))) = 1
   \<and> length (getNormals (fst (ObjLoader_new (sample_world 7) ''assets/cube.obj'' 3 []))) = 1
   \<and> length (faces (fst (ObjLoader_new (sample_world 7) ''assets/cube.obj'' 3 []))) = 1
   \<and> leading_token ''# cube'' \<notin> set [''v'', ''vt'', ''vn'', ''f'']
   \<and> self (load_line (sample_world 7) ''assets'' 0
        \<lparr>self = fst (ObjLoader_new (sample_world 7) ''assets/cube.obj'' 3 []),
         mtlFilename = [], textureName_local = [], gTextureName = []\<rparr> ''# cube'') =
      fst (ObjLoader_new (sample_world 7) ''assets/cube.obj'' 3 [])"
proof -
  have tok: "leading_token ''# cube'' \<notin> set [''v'', ''vt'', ''vn'', ''f'']"
    by code_simp
  have v: "length (filter (\<lambda>l. leading_token l = ''v'')
      (file_lines (files (sample_world 7) ''assets/cube.obj''))) = 3"
    by code_simp
  have vt: "length (filter (\<lambda>l. leading_token l = ''vt'')
      (file_lines (files (sample_world 7) ''assets/cube.obj''))) = 1"
    by code_simp
  have vn: "length (filter (\<lambda>l. leading_token l = ''vn'')
      (file_lines (files (sample_world 7) ''assets/cube.obj''))) = 1"
    by code_simp
  have f: "length (filter (\<lambda>l. leading_token l = ''f'')
      (file_lines (files (sample_world 7) ''assets/cube.obj''))) = 1"
    by code_simp
  show ?thesis
    using C7_pool_sizes [of "sample_world 7" "''assets/cube.obj''" 3 "[]" "''# cube''"
        "''assets''" 0
        "\<lparr>self = fst (ObjLoader_new (sample_world 7) ''assets/cube.obj'' 3 []),
         mtlFilename = [], textureName_local = [], gTextureName = []\<rparr>"] tok
    unfolding v vt vn f by simp
qed

section \<open>The classification tag\<close>

lemma load_line_modelType:
  "load_line w d k (st\<lparr>self := (self st)\<lparr>modelType := t\<rparr>\<rparr>) l =
     (load_line w d k st l)\<lparr>self := (self (load_line w d k st l))\<lparr>modelType := t\<rparr>\<rparr>"
  by (simp add: load_line_def read_mtllib_def split: prod.splits)

lemma load_lines_modelType:
  "load_lines w d k (st\<lparr>self := (self st)\<lparr>modelType := t\<rparr>\<rparr>) ls =
     (load_lines w d k st ls)\<lparr>self := (self (load_lines w d k st ls))\<lparr>modelType := t\<rparr>\<rparr>"
proof (induction ls arbitrary: k st)
  case Nil
  show ?case by simp
next
  case (Cons l ls)
  show ?case by (simp add: load_line_modelType Cons.IH)
qed

lemma resolve_corner_modelType:
  "resolve_corner (obj\<lparr>modelType := t\<rparr>) face i = resolve_corner obj face i"
  by (simp add: resolve_corner_def split: option.splits)

lemma face_triangle_modelType:
  "face_triangle (obj\<lparr>modelType := t\<rparr>) face = face_triangle obj face"
  by (simp add: face_triangle_def resolve_corner_modelType cong: option.case_cong)

lemma triangles_loop_modelType:
  "triangles_loop (obj\<lparr>modelType := t\<rparr>) fs acc = triangles_loop obj fs acc"
  by (induction fs arbitrary: acc) (simp_all add: face_triangle_modelType split: option.splits)

lemma getTriangles_modelType: "getTriangles (obj\<lparr>modelType := t\<rparr>) = getTriangles obj"
  by (simp add: getTriangles_def triangles_loop_modelType)

lemma ObjLoader_new_modelType:
  "ObjLoader_new w f t2 g =
     ((fst (ObjLoader_new w f t1 g))\<lparr>modelType := t2\<rparr>, snd (ObjLoader_new w f t1 g))"
proof -
  let ?st = "\<lambda>t. \<lparr>self = \<lparr>modelType = t, vertices = [], textures = [], normals = [],
      faces = [], textureName = []\<rparr>, mtlFilename = [], textureName_local = [],
      gTextureName = g\<rparr> :: 'a load_state"
  have "?st t2 = (?st t1)\<lparr>self := (self (?st t1))\<lparr>modelType := t2\<rparr>\<rparr>"
    by simp
  then have "load_lines w (directory_of f) 0 (?st t2) (file_lines (files w f)) =
      (load_lines w (directory_of f) 0 (?st t1) (file_lines (files w f)))
        \<lparr>self := (self (load_lines w (directory_of f) 0 (?st t1) (file_lines (files w f))))
           \<lparr>modelType := t2\<rparr>\<rparr>"
    by (simp only: load_lines_modelType)
  then show ?thesis
    by (simp add: ObjLoader_new_def load_def)
qed

section \<open>The assembler\<close>

lemma triangles_loop_undefined:
  "face \<in> set fs \<Longrightarrow> face_triangle obj face = None \<Longrightarrow>
     triangles_loop obj fs acc = UndefinedBehaviour"
  by (induction fs arbitrary: acc) (auto split: option.splits)

lemma triangles_loop_no_error:
  "triangles_loop obj fs acc \<noteq> AddressingError kind faceIndex cornerIndex"
  by (induction fs arbitrary: acc) (auto split: option.splits)

lemma subscript_None: "out_of_range xs i \<Longrightarrow> subscript xs i = None"
  by (simp add: out_of_range_def subscript_def split: if_splits)

lemma resolve_corner_None:
  "out_of_range (vertices obj) (aget (vertexIndices face) i)
     \<or> out_of_range (textures obj) (aget (textureIndices face) i)
     \<or> out_of_range (normals obj) (aget (normalIndices face) i) \<Longrightarrow>
   resolve_corner obj face i = None"
  by (auto simp: resolve_corner_def subscript_None split: option.splits)

lemma face_triangle_None:
  "i < 3 \<Longrightarrow> resolve_corner obj face i = None \<Longrightarrow> face_triangle obj face = None"
proof -
  assume "i < 3" and n: "resolve_corner obj face i = None"
  then have "i = 0 \<or> i = 1 \<or> i = 2" by arith
  with n show ?thesis
    by (auto simp: face_triangle_def split: option.splits)
qed

text \<open>
  C1, as the code has it. \<open>getTriangles\<close> checks no index. When a corner of some face
  holds a position, texture or normal index outside its pool, the call reads outside the
  vector: its behaviour is undefined, it delivers no \<open>AddressingError\<close> and nothing
  says that it delivers zero triangles.
\<close>

theorem C1_unchecked_access:
  assumes "face \<in> set (faces obj)" and "i < 3"
    and "out_of_range (vertices obj) (aget (vertexIndices face) i)
         \<or> out_of_range (textures obj) (aget (textureIndices face) i)
         \<or> out_of_range (normals obj) (aget (normalIndices face) i)"
  shows "getTriangles obj = UndefinedBehaviour"
proof -
  have "resolve_corner obj face i = None"
    using assms(3) by (rule resolve_corner_None)
  with assms(2) have "face_triangle obj face = None"
    by (rule face_triangle_None)
  with assms(1) show ?thesis
    unfolding getTriangles_def by (rule triangles_loop_undefined)
qed

theorem C1_unchecked_access_witness:
  "\<lparr>vertexIndices = Array3 98 0 1, textureIndices = Array3 0 0 0,
     normalIndices = Array3 0 0 0\<rparr>
     \<in> set (faces (fst (ObjLoader_new (sample_world 7) ''plain/far.obj'' 1 [])))
   \<and> (0 :: nat) < 3
   \<and> out_of_range (vertices (fst (ObjLoader_new (sample_world 7) ''plain/far.obj'' 1 []))) 98
   \<and> getTriangles (fst (ObjLoader_new (sample_world 7) ''plain/far.obj'' 1 [])) =
       UndefinedBehaviour"
proof -
  let ?obj = "fst (ObjLoader_new (sample_world 7) ''plain/far.obj'' 1 [])"
  let ?face = "\<lparr>vertexIndices = Array3 98 0 1, textureIndices = Array3 0 0 0,
     normalIndices = Array3 0 0 0\<rparr>"
  have f: "?face \<in> set (faces ?obj)" by code_simp
  have o: "out_of_range (vertices ?obj) 98" by code_simp
  have "getTriangles ?obj = UndefinedBehaviour"
    by (rule C1_unchecked_access [of ?face ?obj 0]) (simp_all add: f o)
  with f o show ?thesis by simp
qed

text \<open>
  The file \<open>plain/far.obj\<close> has three positions and the face \<open>f 99/1/1 1/1/1 2/1/1\<close>:
  position index 98 against a pool of size 3. The outcome is not the
  \<open>AddressingError\<close> for corner 0 of face 0.
\<close>

theorem C1_counterexample:
  "length (getVertices (fst (ObjLoader_new (sample_world 7) ''plain/far.obj'' 1 []))) = 3
   \<and> vertexIndices (faces (fst (ObjLoader_new (sample_world 7) ''plain/far.obj'' 1 [])) ! 0) =
       Array3 98 0 1
   \<and> getTriangles (fst (ObjLoader_new (sample_world 7) ''plain/far.obj'' 1 [])) \<noteq>
       AddressingError Position 0 0"
  by code_simp

section \<open>Face lines\<close>

lemmas stream_defs = extraction_def istringstream_def good_def peek_def get_def
  scan_string_def scan_int_def isspace_def nonspace_def isdigit_def digit_val_def

lemma read_Face_plain:
  "read_Face \<lparr>buf = '' 1 2 3'', eofbit = False, failbit = False\<rparr>
     \<lparr>vertexIndices = Array3 a0 a1 a2, textureIndices = Array3 b0 b1 b2,
      normalIndices = Array3 c0 c1 c2\<rparr> =
   \<lparr>vertexIndices = Array3 0 1 2, textureIndices = Array3 (b0 - 1) (b1 - 1) (b2 - 1),
    normalIndices = Array3 (c0 - 1) (c1 - 1) (c2 - 1)\<rparr>"
  by (simp add: read_Face_def read_corner_def read_slashes_def decrement_def stream_defs)

lemma read_Face_texture:
  "read_Face \<lparr>buf = '' 1/1 2/2 3/3'', eofbit = False, failbit = False\<rparr>
     \<lparr>vertexIndices = Array3 a0 a1 a2, textureIndices = Array3 b0 b1 b2,
      normalIndices = Array3 c0 c1 c2\<rparr> =
   \<lparr>vertexIndices = Array3 0 1 2, textureIndices = Array3 0 1 2,
    normalIndices = Array3 (c0 - 1) (c1 - 1) (c2 - 1)\<rparr>"
  by (simp add: read_Face_def read_corner_def read_slashes_def decrement_def stream_defs)

lemma read_Face_normal:
  "read_Face \<lparr>buf = '' 1//1 2//2 3//3'', eofbit = False, failbit = False\<rparr>
     \<lparr>vertexIndices = Array3 a0 a1 a2, textureIndices = Array3 b0 b1 b2,
      normalIndices = Array3 c0 c1 c2\<rparr> =
   \<lparr>vertexIndices = Array3 0 1 2, textureIndices = Array3 (b0 - 1) (b1 - 1) (b2 - 1),
    normalIndices = Array3 0 1 2\<rparr>"
  by (simp add: read_Face_def read_corner_def read_slashes_def decrement_def stream_defs)

lemma read_Face_full:
  "read_Face \<lparr>buf = '' 1/1/1 2/2/2 3/3/3'', eofbit = False, failbit = False\<rparr>
     \<lparr>vertexIndices = Array3 a0 a1 a2, textureIndices = Array3 b0 b1 b2,
      normalIndices = Array3 c0 c1 c2\<rparr> =
   \<lparr>vertexIndices = Array3 0 1 2, textureIndices = Array3 0 1 2,
    normalIndices = Array3 0 1 2\<rparr>"
  by (simp add: read_Face_def read_corner_def read_slashes_def decrement_def stream_defs)


lemma Face_shape:
  obtains a0 a1 a2 b0 b1 b2 c0 c1 c2 where
    "face = \<lparr>vertexIndices = Array3 a0 a1 a2, textureIndices = Array3 b0 b1 b2,
      normalIndices = Array3 c0 c1 c2\<rparr>"
proof -
  obtain va ta na where f: "face = \<lparr>vertexIndices = va, textureIndices = ta, normalIndices = na\<rparr>"
    by (cases face) simp
  obtain a0 a1 a2 where "va = Array3 a0 a1 a2" by (cases va)
  moreover obtain b0 b1 b2 where "ta = Array3 b0 b1 b2" by (cases ta)
  moreover obtain c0 c1 c2 where "na = Array3 c0 c1 c2" by (cases na)
  ultimately show ?thesis using f that by simp
qed

lemma face_line_prefix:
  "extraction scan_string (istringstream (CHR ''f'' # CHR '' '' # cs)) [] =
     (\<lparr>buf = CHR '' '' # cs, eofbit = False, failbit = False\<rparr>, ''f'')"
  by (simp add: stream_defs)

lemma getTriangles_no_error:
  "getTriangles obj \<noteq> AddressingError kind faceIndex cornerIndex"
  by (simp add: getTriangles_def triangles_loop_no_error)

text \<open>
  C3, as the code has it. Each of the four corner forms appends a face with the position
  indices 0, 1, 2, and every texture or normal index that is written is stored less one.
  A \<open>Face\<close> is three arrays of \<open>int\<close>: a slot that is not written has no mark of
  its own, and \<open>getTriangles\<close> never delivers an \<open>AddressingError\<close>.
\<close>

theorem C3_corner_forms:
  "(\<exists>t n. faces (self (load_line w d k st ''f 1 2 3'')) = faces (self st) @
       [\<lparr>vertexIndices = Array3 0 1 2, textureIndices = t, normalIndices = n\<rparr>])
   \<and> (\<exists>n. faces (self (load_line w d k st ''f 1/1 2/2 3/3'')) = faces (self st) @
       [\<lparr>vertexIndices = Array3 0 1 2, textureIndices = Array3 0 1 2, normalIndices = n\<rparr>])
   \<and> (\<exists>t. faces (self (load_line w d k st ''f 1//1 2//2 3//3'')) = faces (self st) @
       [\<lparr>vertexIndices = Array3 0 1 2, textureIndices = t, normalIndices = Array3 0 1 2\<rparr>])
   \<and> faces (self (load_line w d k st ''f 1/1/1 2/2/2 3/3/3'')) = faces (self st) @
       [\<lparr>vertexIndices = Array3 0 1 2, textureIndices = Array3 0 1 2,
         normalIndices = Array3 0 1 2\<rparr>]
   \<and> getTriangles obj \<noteq> AddressingError kind faceIndex cornerIndex"
proof -
  obtain a0 a1 a2 b0 b1 b2 c0 c1 c2 where
    f: "l_face (indeterminate w k) =
      \<lparr>vertexIndices = Array3 a0 a1 a2, textureIndices = Array3 b0 b1 b2,
       normalIndices = Array3 c0 c1 c2\<rparr>"
    by (rule Face_shape)
  show ?thesis
    by (simp add: load_line_def face_line_prefix f read_Face_plain read_Face_texture
        read_Face_normal read_Face_full getTriangles_no_error)
qed

theorem C3_corner_forms_witness:
  "faces (self (load_line (sample_world 7) ''plain'' 0
      \<lparr>self = fst (ObjLoader_new (sample_world 7) ''plain/rock.obj'' 1 []),
       mtlFilename = [], textureName_local = [], gTextureName = []\<rparr>
      ''f 1/1/1 2/2/2 3/3/3'')) =
     [\<lparr>vertexIndices = Array3 0 0 0, textureIndices = Array3 0 0 0,
       normalIndices = Array3 0 0 0\<rparr>,
      \<lparr>vertexIndices = Array3 0 1 2, textureIndices = Array3 0 1 2,
       normalIndices = Array3 0 1 2\<rparr>]"
proof -
  have f: "faces (fst (ObjLoader_new (sample_world 7) ''plain/rock.obj'' 1 [])) =
     [\<lparr>vertexIndices = Array3 0 0 0, textureIndices = Array3 0 0 0,
       normalIndices = Array3 0 0 0\<rparr>]"
    by code_simp
  show ?thesis
    using C3_corner_forms [of "sample_world 7" "''plain''" 0
        "\<lparr>self = fst (ObjLoader_new (sample_world 7) ''plain/rock.obj'' 1 []),
          mtlFilename = [], textureName_local = [], gTextureName = []\<rparr>",
        THEN conjunct2, THEN conjunct2, THEN conjunct2, THEN conjunct1]
    by (simp add: f)
qed

text \<open>
  The file \<open>plain/bare.obj\<close> has the face \<open>f 1 2 3\<close>. Where the uninitialised
  \<open>face\<close> holds 1 in every slot, the face records texture and normal index 0, and
  \<open>getTriangles\<close> returns a triangle whose corners carry entry 0 of the texture and
  normal pools: no \<open>AddressingError\<close>.
\<close>

theorem C3_counterexample:
  "faces (fst (ObjLoader_new (sample_world 1) ''plain/bare.obj'' 1 [])) =
     [\<lparr>vertexIndices = Array3 0 1 2, textureIndices = Array3 0 0 0,
       normalIndices = Array3 0 0 0\<rparr>]
   \<and> getTextures (fst (ObjLoader_new (sample_world 1) ''plain/bare.obj'' 1 [])) =
       [\<lparr>tu = 5, tv = 6\<rparr>]
   \<and> getTriangles (fst (ObjLoader_new (sample_world 1) ''plain/bare.obj'' 1 [])) =
       Triangles (returned (getTriangles (fst (ObjLoader_new (sample_world 1) ''plain/bare.obj'' 1 []))))
   \<and> map tri_textures
        (returned (getTriangles (fst (ObjLoader_new (sample_world 1) ''plain/bare.obj'' 1 [])))) =
       [Array3 \<lparr>tu = 5, tv = 6\<rparr> \<lparr>tu = 5, tv = 6\<rparr> \<lparr>tu = 5, tv = 6\<rparr>]
   \<and> getTriangles (fst (ObjLoader_new (sample_world 1) ''plain/bare.obj'' 1 [])) \<noteq>
       AddressingError TextureCoordinate 0 0
   \<and> getTriangles (fst (ObjLoader_new (sample_world 1) ''plain/bare.obj'' 1 [])) \<noteq>
       AddressingError NormalVector 0 0"
  by code_simp

section \<open>Attribute lines\<close>

text \<open>
  C6, as the code has it. A line whose leading token is \<open>v\<close>, \<open>vt\<close> or \<open>vn\<close>
  appends one entry to its pool whatever follows the token, changes nothing else, and
  the loop goes on: the source tests no stream state and has no \<open>MalformedLine\<close>.
\<close>

theorem C6_attribute_line_appends:
  "(leading_token line = ''v'' \<longrightarrow>
      (\<exists>vertex. load_line w d k st line =
         st\<lparr>self := (self st)\<lparr>vertices := vertices (self st) @ [vertex]\<rparr>\<rparr>))
   \<and> (leading_token line = ''vt'' \<longrightarrow>
      (\<exists>texture. load_line w d k st line =
         st\<lparr>self := (self st)\<lparr>textures := textures (self st) @ [texture]\<rparr>\<rparr>))
   \<and> (leading_token line = ''vn'' \<longrightarrow>
      (\<exists>normal. load_line w d k st line =
         st\<lparr>self := (self st)\<lparr>normals := normals (self st) @ [normal]\<rparr>\<rparr>))"
proof -
  have a: "leading_token line = ''v'' \<longrightarrow>
      (\<exists>vertex. load_line w d k st line =
         st\<lparr>self := (self st)\<lparr>vertices := vertices (self st) @ [vertex]\<rparr>\<rparr>)"
    by (auto simp: load_line_def leading_token_def split: prod.splits)
  have b: "leading_token line = ''vt'' \<longrightarrow>
      (\<exists>texture. load_line w d k st line =
         st\<lparr>self := (self st)\<lparr>textures := textures (self st) @ [texture]\<rparr>\<rparr>)"
    by (auto simp: load_line_def leading_token_def split: prod.splits)
  have c: "leading_token line = ''vn'' \<longrightarrow>
      (\<exists>normal. load_line w d k st line =
         st\<lparr>self := (self st)\<lparr>normals := normals (self st) @ [normal]\<rparr>\<rparr>)"
    by (auto simp: load_line_def leading_token_def split: prod.splits)
  show ?thesis
    by (intro conjI, rule a, rule b, rule c)
qed

theorem C6_attribute_line_appends_witness:
  "leading_token ''v 1 2'' = ''v''
   \<and> (\<exists>vertex. load_line (sample_world 7) ''plain'' 0
          \<lparr>self = fst (ObjLoader_new (sample_world 7) ''plain/rock.obj'' 1 []),
           mtlFilename = [], textureName_local = [], gTextureName = []\<rparr> ''v 1 2'' =
        \<lparr>self = (fst (ObjLoader_new (sample_world 7) ''plain/rock.obj'' 1 []))
           \<lparr>vertices := vertices (fst (ObjLoader_new (sample_world 7) ''plain/rock.obj'' 1 []))
              @ [vertex]\<rparr>,
         mtlFilename = [], textureName_local = [], gTextureName = []\<rparr>)"
proof -
  have t: "leading_token ''v 1 2'' = ''v''" by code_simp
  show ?thesis
    using C6_attribute_line_appends [of "''v 1 2''" "sample_world 7" "''plain''" 0
        "\<lparr>self = fst (ObjLoader_new (sample_world 7) ''plain/rock.obj'' 1 []),
          mtlFilename = [], textureName_local = [], gTextureName = []\<rparr>"] t
    by simp
qed

text \<open>
  The file \<open>plain/short.obj\<close> has the lines \<open>v 1 2\<close>, \<open>vt x\<close> and \<open>vn\<close>. Each
  appends an entry: the fields read, 0 where a conversion failed, and for the rest what
  the uninitialised local held (7 here).
\<close>

theorem C6_counterexample:
  "getVertices (fst (ObjLoader_new (sample_world 7) ''plain/short.obj'' 1 [])) =
     [\<lparr>vx = 1, vy = 2, vz = 7, vr = 7, vg = 7, vb = 7, vnx = 7, vny = 7, vnz = 7\<rparr>]
   \<and> getTextures (fst (ObjLoader_new (sample_world 7) ''plain/short.obj'' 1 [])) =
     [\<lparr>tu = 0, tv = 7\<rparr>]
   \<and> getNormals (fst (ObjLoader_new (sample_world 7) ''plain/short.obj'' 1 [])) =
     [\<lparr>nx = 7, ny = 7, nz = 7\<rparr>]"
  by code_simp

section \<open>The material library\<close>

lemma token_extraction:
  assumes "is_token t"
  shows "extraction scan_string \<lparr>buf = CHR '' '' # t, eofbit = False, failbit = False\<rparr> old =
     (\<lparr>buf = [], eofbit = True, failbit = False\<rparr>, t)"
proof -
  from assms have ne: "t \<noteq> []" and all: "list_all nonspace t"
    by (auto simp: is_token_def split: if_splits)
  from ne obtain c cs where t: "t = c # cs" by (cases t) auto
  with all have "nonspace c" by simp
  then have c: "isspace c = False" by (simp add: nonspace_def split: if_splits)
  have sp: "isspace (CHR '' '')" by (simp add: isspace_def)
  have d: "dropWhile isspace t = t"
    using c by (simp add: t)
  have tk: "takeWhile nonspace t = t"
    using all by (simp add: list_all_iff)
  have dr: "dropWhile nonspace t = []"
    using all by (simp add: list_all_iff)
  show ?thesis
    using ne by (simp add: extraction_def good_def sp d tk dr scan_string_def)
qed

lemma mtllib_prefix:
  "extraction scan_string (istringstream (CHR ''m'' # CHR ''t'' # CHR ''l'' # CHR ''l'' #
       CHR ''i'' # CHR ''b'' # CHR '' '' # rest)) [] =
     (\<lparr>buf = CHR '' '' # rest, eofbit = False, failbit = False\<rparr>, ''mtllib'')"
  by (simp add: extraction_def istringstream_def good_def scan_string_def isspace_def
      nonspace_def)

lemma map_Kd_prefix:
  "extraction scan_string (istringstream (CHR ''m'' # CHR ''a'' # CHR ''p'' # CHR ''_'' #
       CHR ''K'' # CHR ''d'' # CHR '' '' # rest)) [] =
     (\<lparr>buf = CHR '' '' # rest, eofbit = False, failbit = False\<rparr>, ''map_Kd'')"
  by (simp add: extraction_def istringstream_def good_def scan_string_def isspace_def
      nonspace_def)

lemma mtl_loop_skip:
  "\<forall>l\<in>set ls. leading_token l \<noteq> ''map_Kd'' \<Longrightarrow>
     mtl_loop d (ls @ rest) tg = mtl_loop d rest tg"
  by (induction ls) (auto simp: leading_token_def split: prod.splits)

lemma mtl_loop_first:
  assumes "\<forall>l\<in>set mpre. leading_token l \<noteq> ''map_Kd''" and "is_token tex"
  shows "mtl_loop d (mpre @ [''map_Kd '' @ tex] @ mpost) tg = (tex, d @ ''/'' @ tex)"
proof -
  have "mtl_loop d (mpre @ [''map_Kd '' @ tex] @ mpost) tg =
      mtl_loop d ((''map_Kd '' @ tex) # mpost) tg"
    using mtl_loop_skip [OF assms(1)] by simp
  also have "\<dots> = (tex, d @ ''/'' @ tex)"
    by (simp add: map_Kd_prefix token_extraction [OF assms(2)])
  finally show ?thesis .
qed

lemma mtl_loop_none:
  "\<forall>l\<in>set ls. leading_token l \<noteq> ''map_Kd'' \<Longrightarrow> mtl_loop d ls tg = tg"
  using mtl_loop_skip [of ls d "[]" tg] by simp

lemma load_line_mtllib:
  assumes "is_token name"
  shows "load_line w d k st (''mtllib '' @ name) =
     (case mtl_loop d (file_lines (files w (d @ ''/'' @ name)))
             (textureName_local st, gTextureName st) of (t, g) \<Rightarrow>
        st\<lparr>mtlFilename := name, textureName_local := t, gTextureName := g\<rparr>)"
  by (simp add: load_line_def mtllib_prefix read_mtllib_def token_extraction [OF assms])

lemma load_line_keeps_global:
  "leading_token l \<noteq> ''mtllib'' \<Longrightarrow> gTextureName (load_line w d k st l) = gTextureName st"
  by (auto simp: load_line_def leading_token_def split: prod.splits)

lemma load_lines_keeps_global:
  "\<forall>l\<in>set ls. leading_token l \<noteq> ''mtllib'' \<Longrightarrow>
     gTextureName (load_lines w d k st ls) = gTextureName st"
  by (induction ls arbitrary: k st) (simp_all add: load_line_keeps_global)

lemma load_lines_append:
  "load_lines w d k st (xs @ ys) =
     load_lines w d (k + length xs) (load_lines w d k st xs) ys"
  by (induction xs arbitrary: k st) simp_all

lemma new_texture:
  "getTextureName (fst (ObjLoader_new w f t g)) =
     gTextureName (load_lines w (directory_of f) 0
       \<lparr>self = \<lparr>modelType = t, vertices = [], textures = [], normals = [], faces = [],
                 textureName = []\<rparr>,
        mtlFilename = [], textureName_local = [], gTextureName = g\<rparr>
       (file_lines (files w f)))"
  "snd (ObjLoader_new w f t g) =
     gTextureName (load_lines w (directory_of f) 0
       \<lparr>self = \<lparr>modelType = t, vertices = [], textures = [], normals = [], faces = [],
                 textureName = []\<rparr>,
        mtlFilename = [], textureName_local = [], gTextureName = g\<rparr>
       (file_lines (files w f)))"
  by (simp_all add: ObjLoader_new_def load_def getTextureName_def split: prod.splits)

lemma texture_resolution:
  assumes "file_lines (files w filename) = pre @ [''mtllib '' @ name] @ post"
    and "\<forall>l\<in>set (pre @ post). leading_token l \<noteq> ''mtllib''"
    and "is_token name"
    and "file_lines (files w (directory_of filename @ ''/'' @ name)) =
           mpre @ [''map_Kd '' @ tex] @ mpost"
    and "\<forall>l\<in>set mpre. leading_token l \<noteq> ''map_Kd''"
    and "is_token tex"
  shows "getTextureName (fst (ObjLoader_new w filename type g)) =
     directory_of filename @ ''/'' @ tex"
proof -
  let ?d = "directory_of filename"
  let ?st0 = "\<lparr>self = \<lparr>modelType = type, vertices = [], textures = [], normals = [],
      faces = [], textureName = []\<rparr>, mtlFilename = [], textureName_local = [],
      gTextureName = g\<rparr> :: 'a load_state"
  let ?st1 = "load_lines w ?d 0 ?st0 pre"
  let ?st2 = "load_line w ?d (length pre) ?st1 (''mtllib '' @ name)"
  from assms(2) have pre: "\<forall>l\<in>set pre. leading_token l \<noteq> ''mtllib''"
    and post: "\<forall>l\<in>set post. leading_token l \<noteq> ''mtllib''"
    by auto
  have e: "?st2 =
      (case mtl_loop ?d (file_lines (files w (?d @ ''/'' @ name)))
              (textureName_local ?st1, gTextureName ?st1) of (t, g) \<Rightarrow>
         ?st1\<lparr>mtlFilename := name, textureName_local := t, gTextureName := g\<rparr>)"
    by (rule load_line_mtllib [OF assms(3)])
  have g2: "gTextureName ?st2 = ?d @ ''/'' @ tex"
    unfolding e assms(4)
      mtl_loop_first [OF assms(5) assms(6), of ?d mpost
        "(textureName_local ?st1, gTextureName ?st1)"]
    by simp
  have "load_lines w ?d 0 ?st0 (file_lines (files w filename)) =
      load_lines w ?d (Suc (length pre)) ?st2 post"
    by (simp add: assms(1) load_lines_append)
  then have "gTextureName (load_lines w ?d 0 ?st0 (file_lines (files w filename))) =
      gTextureName ?st2"
    by (simp add: load_lines_keeps_global [OF post])
  with g2 show ?thesis by (simp add: new_texture)
qed

lemma directory_of_assets: "directory_of ''assets/cube.obj'' = ''assets''"
  by (simp add: directory_of_def substr0_def)



text \<open>
  C5. The geometry file \<open>assets/cube.obj\<close> has the line \<open>mtllib m.mtl\<close> as its only
  \<open>mtllib\<close> line, and the first \<open>map_Kd\<close> line of \<open>assets/m.mtl\<close> is
  \<open>map_Kd wood.png\<close>. Then the loader's texture name is \<open>assets/wood.png\<close>,
  whatever lines (further \<open>map_Kd\<close> lines among them) follow in the material file.
\<close>

theorem C5_material_resolution:
  assumes "file_lines (files w ''assets/cube.obj'') = pre @ [''mtllib m.mtl''] @ post"
    and "\<forall>l\<in>set (pre @ post). leading_token l \<noteq> ''mtllib''"
    and "file_lines (files w ''assets/m.mtl'') = mpre @ [''map_Kd wood.png''] @ mpost"
    and "\<forall>l\<in>set mpre. leading_token l \<noteq> ''map_Kd''"
  shows "getTextureName (fst (ObjLoader_new w ''assets/cube.obj'' type g)) = ''assets/wood.png''"
proof -
  have n: "is_token ''m.mtl''" and t: "is_token ''wood.png''"
    by (simp_all add: is_token_def nonspace_def isspace_def)
  have "getTextureName (fst (ObjLoader_new w ''assets/cube.obj'' type g)) =
      directory_of ''assets/cube.obj'' @ ''/'' @ ''wood.png''"
    by (rule texture_resolution [where name = "''m.mtl''" and pre = pre and post = post
          and mpre = mpre and mpost = mpost])
      (use assms n t in \<open>simp_all add: directory_of_assets\<close>)
  then show ?thesis by (simp add: directory_of_assets)
qed


theorem C5_material_resolution_witness:
  "file_lines (files (sample_world 7) ''assets/m.mtl'') =
     [''newmtl wood''] @ [''map_Kd wood.png''] @ [''map_Kd other.png'']
   \<and> getTextureName (fst (ObjLoader_new (sample_world 7) ''assets/cube.obj'' 3 ''old.png'')) =
       ''assets/wood.png''"
proof -
  let ?pre = "[''# cube'', []]"
  let ?post = "[''v 0 0 0'', ''v 1 0 0'', ''v 0 1 0'', ''vt 0 0'', ''vn 0 0 1'', ''usemtl wood'',
    ''f 1/1/1 2/1/1 3/1/1'']"
  have a: "file_lines (files (sample_world 7) ''assets/cube.obj'') =
      ?pre @ [''mtllib m.mtl''] @ ?post"
    by code_simp
  have b: "\<forall>l\<in>set (?pre @ ?post). leading_token l \<noteq> ''mtllib''"
    by code_simp
  have c: "file_lines (files (sample_world 7) ''assets/m.mtl'') =
     [''newmtl wood''] @ [''map_Kd wood.png''] @ [''map_Kd other.png'']"
    by code_simp
  have d: "\<forall>l\<in>set [''newmtl wood'']. leading_token l \<noteq> ''map_Kd''"
    by code_simp
  have "getTextureName (fst (ObjLoader_new (sample_world 7) ''assets/cube.obj'' 3 ''old.png'')) =
       ''assets/wood.png''"
    by (rule C5_material_resolution [OF a b c d])
  with c show ?thesis by blast
qed

section \<open>The texture name of a loader and the variable at namespace scope\<close>

lemma read_mtllib_keeps_global:
  "\<forall>p. \<forall>m\<in>set (file_lines (fs p)). leading_token m \<noteq> ''map_Kd'' \<Longrightarrow>
     gTextureName (read_mtllib fs d iss st) = gTextureName st"
  by (simp add: read_mtllib_def mtl_loop_none split: prod.splits)

lemma load_line_no_map_Kd:
  "\<forall>p. \<forall>m\<in>set (file_lines (files w p)). leading_token m \<noteq> ''map_Kd'' \<Longrightarrow>
     gTextureName (load_line w d k st l) = gTextureName st"
  by (simp add: load_line_def read_mtllib_keeps_global split: prod.splits)

lemma load_lines_no_map_Kd:
  "\<forall>p. \<forall>m\<in>set (file_lines (files w p)). leading_token m \<noteq> ''map_Kd'' \<Longrightarrow>
     gTextureName (load_lines w d k st ls) = gTextureName st"
  by (induction ls arbitrary: k st) (simp_all add: load_line_no_map_Kd)

text \<open>
  A loader whose file has no \<open>mtllib\<close> line, and a loader in surroundings where no
  file that opens has a \<open>map_Kd\<close> line, takes as its texture name the value that
  \<open>gTextureName\<close> had when the constructor was called: the empty string only if that
  value was empty.
\<close>

lemma texture_without_mtllib:
  "\<forall>l\<in>set (file_lines (files w filename)). leading_token l \<noteq> ''mtllib'' \<Longrightarrow>
     getTextureName (fst (ObjLoader_new w filename type g)) = g"
  by (simp add: new_texture load_lines_keeps_global)

lemma texture_without_map_Kd:
  "\<forall>p. \<forall>m\<in>set (file_lines (files w p)). leading_token m \<noteq> ''map_Kd'' \<Longrightarrow>
     getTextureName (fst (ObjLoader_new w filename type g)) = g"
  by (simp add: new_texture load_lines_no_map_Kd)

text \<open>
  C2, at a concrete run. \<open>plain/rock.obj\<close> has no \<open>mtllib\<close> line: built first, its
  loader has the empty texture name. Built after a loader for \<open>assets/cube.obj\<close>,
  whose material file names \<open>wood.png\<close>, it has the texture name
  \<open>assets/wood.png\<close>, which is the other model's.
\<close>

theorem C2_texture_from_earlier_loader:
  "getTextureName (fst (ObjLoader_new (sample_world 7) ''plain/rock.obj'' 2 [])) = []
   \<and> snd (ObjLoader_new (sample_world 7) ''assets/cube.obj'' 3 []) = ''assets/wood.png''
   \<and> getTextureName (fst (ObjLoader_new (sample_world 7) ''plain/rock.obj'' 2
        (snd (ObjLoader_new (sample_world 7) ''assets/cube.obj'' 3 [])))) = ''assets/wood.png''"
  by code_simp

text \<open>
  C4, at a concrete run. \<open>plain/lost.obj\<close> names a material file that does not open,
  and the material file of \<open>assets/stone.obj\<close> has no \<open>map_Kd\<close> line. Built first,
  each loader has the empty texture name; built after the loader for
  \<open>assets/cube.obj\<close>, each has the texture name \<open>assets/wood.png\<close>.
\<close>

theorem C4_texture_not_empty:
  "files (sample_world 7) ''plain/nowhere.mtl'' = None
   \<and> getTextureName (fst (ObjLoader_new (sample_world 7) ''plain/lost.obj'' 2 [])) = []
   \<and> getTextureName (fst (ObjLoader_new (sample_world 7) ''assets/stone.obj'' 2 [])) = []
   \<and> getTextureName (fst (ObjLoader_new (sample_world 7) ''plain/lost.obj'' 2
        (snd (ObjLoader_new (sample_world 7) ''assets/cube.obj'' 3 [])))) = ''assets/wood.png''
   \<and> getTextureName (fst (ObjLoader_new (sample_world 7) ''assets/stone.obj'' 2
        (snd (ObjLoader_new (sample_world 7) ''assets/cube.obj'' 3 [])))) = ''assets/wood.png''"
  by code_simp

section \<open>How the loop depends on the variable at namespace scope\<close>

lemma assigned_twice: "assigned c (assigned c g) = assigned c g"
  by (cases c) (simp_all add: assigned_def)

lemma mtl_loop_global:
  "\<exists>t1 c. \<forall>g. mtl_loop d ls (t, g) = (t1, assigned c g)"
proof (induction ls)
  case Nil
  have "\<forall>g. mtl_loop d [] (t, g) = (t, assigned None g)"
    by (simp add: assigned_def)
  then show ?case by blast
next
  case (Cons l ls)
  obtain s p where e: "extraction scan_string (istringstream l) [] = (s, p)"
    by (cases "extraction scan_string (istringstream l) []")
  show ?case
  proof (cases "p = ''map_Kd''")
    case True
    obtain s1 n where e1: "extraction scan_string s t = (s1, n)"
      by (cases "extraction scan_string s t")
    have "\<forall>g. mtl_loop d (l # ls) (t, g) = (n, assigned (Some (d @ ''/'' @ n)) g)"
      by (simp add: e True e1 assigned_def)
    then show ?thesis by blast
  next
    case False
    then have "\<forall>g. mtl_loop d (l # ls) (t, g) = mtl_loop d ls (t, g)"
      by (simp add: e)
    with Cons.IH show ?thesis by simp
  qed
qed

lemma load_line_global:
  "\<exists>c. \<forall>g. load_line w d k (st\<lparr>gTextureName := g\<rparr>) l =
     (load_line w d k st l)\<lparr>gTextureName := assigned c g\<rparr>"
proof -
  obtain s p where e: "extraction scan_string (istringstream l) [] = (s, p)"
    by (cases "extraction scan_string (istringstream l) []")
  show ?thesis
  proof (cases "p = ''mtllib'' \<and> p \<noteq> ''v'' \<and> p \<noteq> ''vt'' \<and> p \<noteq> ''vn'' \<and> p \<noteq> ''f''")
    case True
    obtain s1 n where e1: "extraction scan_string s (mtlFilename st) = (s1, n)"
      by (cases "extraction scan_string s (mtlFilename st)")
    obtain t1 c where m: "\<forall>g. mtl_loop d (file_lines (files w (d @ ''/'' @ n)))
        (textureName_local st, g) = (t1, assigned c g)"
      using mtl_loop_global by blast
    have "\<forall>g. load_line w d k (st\<lparr>gTextureName := g\<rparr>) l =
       (load_line w d k st l)\<lparr>gTextureName := assigned c g\<rparr>"
      using True m by (simp add: load_line_def e read_mtllib_def e1)
    then show ?thesis by blast
  next
    case False
    then have "\<forall>g. load_line w d k (st\<lparr>gTextureName := g\<rparr>) l =
       (load_line w d k st l)\<lparr>gTextureName := assigned None g\<rparr>"
      by (auto simp: load_line_def e assigned_def)
    then show ?thesis by blast
  qed
qed

lemma load_lines_global:
  "\<exists>c. \<forall>g. load_lines w d k (st\<lparr>gTextureName := g\<rparr>) ls =
     (load_lines w d k st ls)\<lparr>gTextureName := assigned c g\<rparr>"
proof (induction ls arbitrary: k st)
  case Nil
  have "\<forall>g. load_lines w d k (st\<lparr>gTextureName := g\<rparr>) [] =
     (load_lines w d k st [])\<lparr>gTextureName := assigned None g\<rparr>"
    by (simp add: assigned_def)
  then show ?case by blast
next
  case (Cons l ls)
  obtain c1 where c1: "\<forall>g. load_line w d k (st\<lparr>gTextureName := g\<rparr>) l =
     (load_line w d k st l)\<lparr>gTextureName := assigned c1 g\<rparr>"
    using load_line_global by blast
  obtain c2 where c2: "\<forall>g. load_lines w d (Suc k) ((load_line w d k st l)\<lparr>gTextureName := g\<rparr>) ls =
     (load_lines w d (Suc k) (load_line w d k st l) ls)\<lparr>gTextureName := assigned c2 g\<rparr>"
    using Cons.IH by blast
  have "\<forall>g. load_lines w d k (st\<lparr>gTextureName := g\<rparr>) (l # ls) =
     (load_lines w d k st (l # ls))
       \<lparr>gTextureName := assigned (case c2 of None \<Rightarrow> c1 | Some v \<Rightarrow> Some v) g\<rparr>"
    by (cases c2; cases c1) (simp_all add: c1 c2 assigned_def)
  then show ?case by blast
qed

lemma ObjLoader_new_global:
  "\<exists>c. \<forall>g. ObjLoader_new w f t g =
     ((fst (ObjLoader_new w f t []))\<lparr>textureName := assigned c g\<rparr>, assigned c g)"
proof -
  let ?st = "\<lparr>self = \<lparr>modelType = t, vertices = [], textures = [], normals = [],
      faces = [], textureName = []\<rparr>, mtlFilename = [], textureName_local = [],
      gTextureName = []\<rparr> :: 'a load_state"
  obtain c where c: "\<forall>g. load_lines w (directory_of f) 0 (?st\<lparr>gTextureName := g\<rparr>)
        (file_lines (files w f)) =
     (load_lines w (directory_of f) 0 ?st (file_lines (files w f)))
       \<lparr>gTextureName := assigned c g\<rparr>"
    using load_lines_global by blast
  have "\<forall>g. ObjLoader_new w f t g =
     ((fst (ObjLoader_new w f t []))\<lparr>textureName := assigned c g\<rparr>, assigned c g)"
  proof
    fix g
    have "load_lines w (directory_of f) 0
        \<lparr>self = \<lparr>modelType = t, vertices = [], textures = [], normals = [],
          faces = [], textureName = []\<rparr>, mtlFilename = [], textureName_local = [],
          gTextureName = g\<rparr> (file_lines (files w f)) =
      (load_lines w (directory_of f) 0 ?st (file_lines (files w f)))
        \<lparr>gTextureName := assigned c g\<rparr>"
      using c [rule_format, of g] by simp
    then show "ObjLoader_new w f t g =
     ((fst (ObjLoader_new w f t []))\<lparr>textureName := assigned c g\<rparr>, assigned c g)"
      by (simp add: ObjLoader_new_def load_def)
  qed
  then show ?thesis by blast
qed

text \<open>
  Built again from the same file, on the value of \<open>gTextureName\<close> that the first
  construction left, a loader is the same and leaves the same value.
\<close>

lemma ObjLoader_new_again:
  "ObjLoader_new w f t (snd (ObjLoader_new w f t g)) = ObjLoader_new w f t g"
proof -
  obtain c where c: "\<forall>g. ObjLoader_new w f t g =
     ((fst (ObjLoader_new w f t []))\<lparr>textureName := assigned c g\<rparr>, assigned c g)"
    using ObjLoader_new_global by blast
  have s: "snd (ObjLoader_new w f t g) = assigned c g"
    using c [rule_format, of g] by simp
  show ?thesis
    unfolding s using c [rule_format, of g] c [rule_format, of "assigned c g"]
    by (simp add: assigned_twice)
qed

text \<open>The pools and the faces of a loader do not depend on \<open>gTextureName\<close>.\<close>

lemma pools_without_global:
  "vertices (fst (ObjLoader_new w f t g)) = vertices (fst (ObjLoader_new w f t []))
   \<and> textures (fst (ObjLoader_new w f t g)) = textures (fst (ObjLoader_new w f t []))
   \<and> normals (fst (ObjLoader_new w f t g)) = normals (fst (ObjLoader_new w f t []))
   \<and> faces (fst (ObjLoader_new w f t g)) = faces (fst (ObjLoader_new w f t []))"
proof -
  obtain c where c: "\<forall>g. ObjLoader_new w f t g =
     ((fst (ObjLoader_new w f t []))\<lparr>textureName := assigned c g\<rparr>, assigned c g)"
    using ObjLoader_new_global by blast
  have "fst (ObjLoader_new w f t g) =
      (fst (ObjLoader_new w f t []))\<lparr>textureName := assigned c g\<rparr>"
    using c [rule_format, of g] by simp
  then show ?thesis by simp
qed


text \<open>
  C9. The constructor stores its \<open>type\<close> argument as \<open>modelType\<close>, and nothing else
  depends on it: built from the same file in the same surroundings with another type, the
  loader differs in \<open>modelType\<close> only, so the pools, the face list, the texture name and
  the value left in \<open>gTextureName\<close> are the same, and so is the outcome of
  \<open>getTriangles\<close>. This holds for two constructions on the same value of
  \<open>gTextureName\<close>, and for the second of two constructions in a row.
\<close>

theorem C9_type_is_opaque:
  "modelType (fst (ObjLoader_new w filename type1 g)) = type1
   \<and> fst (ObjLoader_new w filename type2 g) =
       (fst (ObjLoader_new w filename type1 g))\<lparr>modelType := type2\<rparr>
   \<and> snd (ObjLoader_new w filename type2 g) = snd (ObjLoader_new w filename type1 g)
   \<and> fst (ObjLoader_new w filename type2 (snd (ObjLoader_new w filename type1 g))) =
       (fst (ObjLoader_new w filename type1 g))\<lparr>modelType := type2\<rparr>
   \<and> getVertices (fst (ObjLoader_new w filename type2 g)) =
       getVertices (fst (ObjLoader_new w filename type1 g))
   \<and> getTextures (fst (ObjLoader_new w filename type2 g)) =
       getTextures (fst (ObjLoader_new w filename type1 g))
   \<and> getNormals (fst (ObjLoader_new w filename type2 g)) =
       getNormals (fst (ObjLoader_new w filename type1 g))
   \<and> faces (fst (ObjLoader_new w filename type2 g)) =
       faces (fst (ObjLoader_new w filename type1 g))
   \<and> getTextureName (fst (ObjLoader_new w filename type2 g)) =
       getTextureName (fst (ObjLoader_new w filename type1 g))
   \<and> getTriangles (fst (ObjLoader_new w filename type2 g)) =
       getTriangles (fst (ObjLoader_new w filename type1 g))"
proof -
  have m: "modelType (fst (ObjLoader_new w filename type1 g)) = type1"
    by (simp add: ObjLoader_new_def split: prod.splits)
  have e: "ObjLoader_new w filename type2 g =
     ((fst (ObjLoader_new w filename type1 g))\<lparr>modelType := type2\<rparr>,
      snd (ObjLoader_new w filename type1 g))"
    by (rule ObjLoader_new_modelType)
  have "ObjLoader_new w filename type2 (snd (ObjLoader_new w filename type1 g)) =
     ((fst (ObjLoader_new w filename type1 (snd (ObjLoader_new w filename type1 g))))
        \<lparr>modelType := type2\<rparr>,
      snd (ObjLoader_new w filename type1 (snd (ObjLoader_new w filename type1 g))))"
    by (rule ObjLoader_new_modelType)
  then have r: "fst (ObjLoader_new w filename type2 (snd (ObjLoader_new w filename type1 g))) =
       (fst (ObjLoader_new w filename type1 g))\<lparr>modelType := type2\<rparr>"
    by (simp add: ObjLoader_new_again)
  show ?thesis
    unfolding r e using m
    by (simp add: getVertices_def getTextures_def getNormals_def getTextureName_def
        getTriangles_modelType)
qed

theorem C9_type_is_opaque_witness:
  "modelType (fst (ObjLoader_new (sample_world 7) ''assets/cube.obj'' 1 [])) = 1
   \<and> fst (ObjLoader_new (sample_world 7) ''assets/cube.obj'' 3 []) =
       (fst (ObjLoader_new (sample_world 7) ''assets/cube.obj'' 1 []))\<lparr>modelType := 3\<rparr>
   \<and> getTriangles (fst (ObjLoader_new (sample_world 7) ''assets/cube.obj'' 3 [])) =
       getTriangles (fst (ObjLoader_new (sample_world 7) ''assets/cube.obj'' 1 []))"
  using C9_type_is_opaque [of "sample_world 7" "''assets/cube.obj''" 1 "[]" 3]
  by blast

section \<open>Corner order and face order\<close>

lemma subscript_in_range:
  "out_of_range xs i = False \<Longrightarrow> subscript xs i = Some (xs ! nat (sint i))"
  by (simp add: out_of_range_def subscript_def split: if_splits)

lemma subscript_Some:
  "subscript xs i = Some v \<Longrightarrow> out_of_range xs i = False \<and> v = xs ! nat (sint i)"
  by (simp add: out_of_range_def subscript_def split: if_splits)

lemma resolve_corner_in_range:
  assumes "corner_in_range obj face i"
  shows "resolve_corner obj face i =
     Some (vertices obj ! nat (sint (aget (vertexIndices face) i)),
           normals obj ! nat (sint (aget (normalIndices face) i)),
           textures obj ! nat (sint (aget (textureIndices face) i)))"
proof -
  from assms have "out_of_range (vertices obj) (aget (vertexIndices face) i) = False"
    and "out_of_range (normals obj) (aget (normalIndices face) i) = False"
    and "out_of_range (textures obj) (aget (textureIndices face) i) = False"
    by (simp_all add: corner_in_range_def split: if_splits)
  then show ?thesis
    by (simp add: resolve_corner_def subscript_in_range)
qed

lemma resolve_corner_returns:
  assumes "resolve_corner obj face i = Some c"
  shows "corner_in_range obj face i"
proof -
  from assms obtain p n t
    where "subscript (vertices obj) (aget (vertexIndices face) i) = Some p"
      and "subscript (normals obj) (aget (normalIndices face) i) = Some n"
      and "subscript (textures obj) (aget (textureIndices face) i) = Some t"
    by (auto simp: resolve_corner_def split: option.splits)
  then show ?thesis
    by (simp add: corner_in_range_def subscript_Some)
qed

lemma face_triangle_in_range:
  assumes "list_all (corner_in_range obj face) [0, 1, 2]"
  shows "face_triangle obj face = Some (resolved_triangle obj face)"
proof -
  from assms have "corner_in_range obj face 0" and "corner_in_range obj face 1"
    and "corner_in_range obj face 2"
    by simp_all
  then show ?thesis
    by (simp add: face_triangle_def resolved_triangle_def resolve_corner_in_range)
qed

lemma face_triangle_returns:
  assumes "face_triangle obj face = Some t"
  shows "list_all (corner_in_range obj face) [0, 1, 2]"
proof -
  from assms obtain c0 c1 c2 where "resolve_corner obj face 0 = Some c0"
    and "resolve_corner obj face 1 = Some c1" and "resolve_corner obj face 2 = Some c2"
    by (auto simp: face_triangle_def split: option.splits)
  then show ?thesis
    by (simp add: resolve_corner_returns)
qed

lemma triangles_loop_in_range:
  "list_all (\<lambda>face. list_all (corner_in_range obj face) [0, 1, 2]) fs \<Longrightarrow>
     triangles_loop obj fs acc = Triangles (acc @ map (resolved_triangle obj) fs)"
proof (induction fs arbitrary: acc)
  case Nil
  show ?case by simp
next
  case (Cons f fs)
  from Cons.prems have f: "list_all (corner_in_range obj f) [0, 1, 2]"
    and fs: "list_all (\<lambda>face. list_all (corner_in_range obj face) [0, 1, 2]) fs"
    by simp_all
  show ?case
    by (simp add: face_triangle_in_range [OF f] Cons.IH [OF fs])
qed

lemma triangles_loop_returns:
  "triangles_loop obj fs acc = Triangles ts \<Longrightarrow>
     list_all (\<lambda>face. list_all (corner_in_range obj face) [0, 1, 2]) fs"
proof (induction fs arbitrary: acc)
  case Nil
  show ?case by simp
next
  case (Cons f fs)
  from Cons.prems obtain t where t: "face_triangle obj f = Some t"
    and rest: "triangles_loop obj fs (acc @ [t]) = Triangles ts"
    by (auto split: option.splits)
  from face_triangle_returns [OF t] Cons.IH [OF rest] show ?case by simp
qed

lemma getTriangles_in_range:
  "all_in_range obj \<Longrightarrow>
     getTriangles obj = Triangles (map (resolved_triangle obj) (faces obj))"
  using triangles_loop_in_range [of obj "faces obj" "[]"]
  by (simp add: getTriangles_def all_in_range_def)

lemma getTriangles_returns:
  assumes "getTriangles obj = Triangles ts"
  shows "all_in_range obj" and "ts = map (resolved_triangle obj) (faces obj)"
proof -
  show a: "all_in_range obj"
    using triangles_loop_returns [of obj "faces obj" "[]" ts] assms
    by (simp add: getTriangles_def all_in_range_def)
  from getTriangles_in_range [OF a] assms
  show "ts = map (resolved_triangle obj) (faces obj)" by simp
qed

lemma resolved_triangle_corner:
  assumes "i < 3"
  shows "aget (tri_vertices (resolved_triangle obj face)) i =
       vertices obj ! nat (sint (aget (vertexIndices face) i))
     \<and> aget (tri_normals (resolved_triangle obj face)) i =
       normals obj ! nat (sint (aget (normalIndices face) i))
     \<and> aget (tri_textures (resolved_triangle obj face)) i =
       textures obj ! nat (sint (aget (textureIndices face) i))"
proof -
  from assms have "i = 0 \<or> i = 1 \<or> i = 2" by arith
  then show ?thesis
    by (auto simp: resolved_triangle_def)
qed

lemma aget_areverse:
  "aget (areverse a) 0 = aget a 2"
  "aget (areverse a) (Suc 0) = aget a (Suc 0)"
  "aget (areverse a) 2 = aget a 0"
  by (cases a, simp)+

lemma resolved_triangle_reverse:
  "resolved_triangle obj (reverse_face face) = reverse_triangle (resolved_triangle obj face)"
  by (simp add: resolved_triangle_def reverse_face_def reverse_triangle_def aget_areverse)

lemma resolved_vertices_reverse:
  "vertexIndices face2 = areverse (vertexIndices face1) \<Longrightarrow>
     tri_vertices (resolved_triangle obj face2) =
       areverse (tri_vertices (resolved_triangle obj face1))"
  by (simp add: resolved_triangle_def aget_areverse)

lemma read_Face_turned:
  "read_Face \<lparr>buf = '' 3 2 1'', eofbit = False, failbit = False\<rparr>
     \<lparr>vertexIndices = Array3 a0 a1 a2, textureIndices = Array3 b0 b1 b2,
      normalIndices = Array3 c0 c1 c2\<rparr> =
   \<lparr>vertexIndices = Array3 2 1 0, textureIndices = Array3 (b0 - 1) (b1 - 1) (b2 - 1),
    normalIndices = Array3 (c0 - 1) (c1 - 1) (c2 - 1)\<rparr>"
  by (simp add: read_Face_def read_corner_def read_slashes_def decrement_def stream_defs)

text \<open>
  C8. Where every corner of every face addresses an entry of each pool, \<open>getTriangles\<close>
  returns, and what it returns is one triangle for each face, in the order of the faces;
  corner \<open>i\<close> of the \<open>k\<close>-th triangle holds the pool entries at the indices of corner
  \<open>i\<close> of the \<open>k\<close>-th face. It returns in no other case. A face that is the reverse of
  another gives the reverse of the other's triangle, and faces whose position indices
  are reverses give position corners that are reverses; the lines \<open>f 1 2 3\<close> and
  \<open>f 3 2 1\<close> record the position indices 0, 1, 2 and 2, 1, 0.
\<close>

theorem C8_order_preserved:
  "(all_in_range obj \<longrightarrow>
      getTriangles obj = Triangles (map (resolved_triangle obj) (faces obj)))
   \<and> (getTriangles obj = Triangles ts \<longrightarrow>
        all_in_range obj
        \<and> ts = map (resolved_triangle obj) (faces obj)
        \<and> length ts = length (faces obj)
        \<and> (\<forall>k i. k < length ts \<and> i < 3 \<longrightarrow>
             aget (tri_vertices (ts ! k)) i =
               vertices obj ! nat (sint (aget (vertexIndices (faces obj ! k)) i))
             \<and> aget (tri_normals (ts ! k)) i =
               normals obj ! nat (sint (aget (normalIndices (faces obj ! k)) i))
             \<and> aget (tri_textures (ts ! k)) i =
               textures obj ! nat (sint (aget (textureIndices (faces obj ! k)) i)))
        \<and> (\<forall>k j. k < length ts \<and> j < length ts
               \<and> faces obj ! j = reverse_face (faces obj ! k) \<longrightarrow>
             ts ! j = reverse_triangle (ts ! k))
        \<and> (\<forall>k j. k < length ts \<and> j < length ts
               \<and> vertexIndices (faces obj ! j) = areverse (vertexIndices (faces obj ! k)) \<longrightarrow>
             tri_vertices (ts ! j) = areverse (tri_vertices (ts ! k))))
   \<and> (\<exists>t n. faces (self (load_line w d l st ''f 1 2 3'')) = faces (self st) @
         [\<lparr>vertexIndices = Array3 0 1 2, textureIndices = t, normalIndices = n\<rparr>])
   \<and> (\<exists>t n. faces (self (load_line w d l st ''f 3 2 1'')) = faces (self st) @
         [\<lparr>vertexIndices = areverse (Array3 0 1 2), textureIndices = t, normalIndices = n\<rparr>])"
proof -
  have total: "all_in_range obj \<longrightarrow>
      getTriangles obj = Triangles (map (resolved_triangle obj) (faces obj))"
    using getTriangles_in_range by blast
  have ret: "getTriangles obj = Triangles ts \<longrightarrow>
        all_in_range obj
        \<and> ts = map (resolved_triangle obj) (faces obj)
        \<and> length ts = length (faces obj)
        \<and> (\<forall>k i. k < length ts \<and> i < 3 \<longrightarrow>
             aget (tri_vertices (ts ! k)) i =
               vertices obj ! nat (sint (aget (vertexIndices (faces obj ! k)) i))
             \<and> aget (tri_normals (ts ! k)) i =
               normals obj ! nat (sint (aget (normalIndices (faces obj ! k)) i))
             \<and> aget (tri_textures (ts ! k)) i =
               textures obj ! nat (sint (aget (textureIndices (faces obj ! k)) i)))
        \<and> (\<forall>k j. k < length ts \<and> j < length ts
               \<and> faces obj ! j = reverse_face (faces obj ! k) \<longrightarrow>
             ts ! j = reverse_triangle (ts ! k))
        \<and> (\<forall>k j. k < length ts \<and> j < length ts
               \<and> vertexIndices (faces obj ! j) = areverse (vertexIndices (faces obj ! k)) \<longrightarrow>
             tri_vertices (ts ! j) = areverse (tri_vertices (ts ! k)))"
  proof
    assume r: "getTriangles obj = Triangles ts"
    note range = getTriangles_returns(1) [OF r]
    note eq = getTriangles_returns(2) [OF r]
    have len: "length ts = length (faces obj)"
      by (simp add: eq)
    have nth: "ts ! k = resolved_triangle obj (faces obj ! k)" if "k < length ts" for k
      using that by (simp add: eq)
    have A: "\<forall>k i. k < length ts \<and> i < 3 \<longrightarrow>
             aget (tri_vertices (ts ! k)) i =
               vertices obj ! nat (sint (aget (vertexIndices (faces obj ! k)) i))
             \<and> aget (tri_normals (ts ! k)) i =
               normals obj ! nat (sint (aget (normalIndices (faces obj ! k)) i))
             \<and> aget (tri_textures (ts ! k)) i =
               textures obj ! nat (sint (aget (textureIndices (faces obj ! k)) i))"
    proof (intro allI impI)
      fix k :: nat and i :: nat
      assume "k < length ts \<and> i < 3"
      then have k: "k < length ts" and i: "i < 3" by simp_all
      show "aget (tri_vertices (ts ! k)) i =
               vertices obj ! nat (sint (aget (vertexIndices (faces obj ! k)) i))
             \<and> aget (tri_normals (ts ! k)) i =
               normals obj ! nat (sint (aget (normalIndices (faces obj ! k)) i))
             \<and> aget (tri_textures (ts ! k)) i =
               textures obj ! nat (sint (aget (textureIndices (faces obj ! k)) i))"
        unfolding nth [OF k] by (rule resolved_triangle_corner [OF i])
    qed
    have B: "\<forall>k j. k < length ts \<and> j < length ts
               \<and> faces obj ! j = reverse_face (faces obj ! k) \<longrightarrow>
             ts ! j = reverse_triangle (ts ! k)"
    proof (intro allI impI)
      fix k :: nat and j :: nat
      assume "k < length ts \<and> j < length ts
               \<and> faces obj ! j = reverse_face (faces obj ! k)"
      then have k: "k < length ts" and j: "j < length ts"
        and f: "faces obj ! j = reverse_face (faces obj ! k)" by simp_all
      show "ts ! j = reverse_triangle (ts ! k)"
        unfolding nth [OF k] nth [OF j] f by (rule resolved_triangle_reverse)
    qed
    have C: "\<forall>k j. k < length ts \<and> j < length ts
               \<and> vertexIndices (faces obj ! j) = areverse (vertexIndices (faces obj ! k)) \<longrightarrow>
             tri_vertices (ts ! j) = areverse (tri_vertices (ts ! k))"
    proof (intro allI impI)
      fix k :: nat and j :: nat
      assume "k < length ts \<and> j < length ts
               \<and> vertexIndices (faces obj ! j) = areverse (vertexIndices (faces obj ! k))"
      then have k: "k < length ts" and j: "j < length ts"
        and f: "vertexIndices (faces obj ! j) = areverse (vertexIndices (faces obj ! k))"
        by simp_all
      show "tri_vertices (ts ! j) = areverse (tri_vertices (ts ! k))"
        unfolding nth [OF k] nth [OF j] by (rule resolved_vertices_reverse [OF f])
    qed
    show "all_in_range obj
        \<and> ts = map (resolved_triangle obj) (faces obj)
        \<and> length ts = length (faces obj)
        \<and> (\<forall>k i. k < length ts \<and> i < 3 \<longrightarrow>
             aget (tri_vertices (ts ! k)) i =
               vertices obj ! nat (sint (aget (vertexIndices (faces obj ! k)) i))
             \<and> aget (tri_normals (ts ! k)) i =
               normals obj ! nat (sint (aget (normalIndices (faces obj ! k)) i))
             \<and> aget (tri_textures (ts ! k)) i =
               textures obj ! nat (sint (aget (textureIndices (faces obj ! k)) i)))
        \<and> (\<forall>k j. k < length ts \<and> j < length ts
               \<and> faces obj ! j = reverse_face (faces obj ! k) \<longrightarrow>
             ts ! j = reverse_triangle (ts ! k))
        \<and> (\<forall>k j. k < length ts \<and> j < length ts
               \<and> vertexIndices (faces obj ! j) = areverse (vertexIndices (faces obj ! k)) \<longrightarrow>
             tri_vertices (ts ! j) = areverse (tri_vertices (ts ! k)))"
      by (intro conjI, rule range, rule eq, rule len, rule A, rule B, rule C)
  qed
  obtain a0 a1 a2 b0 b1 b2 c0 c1 c2 where
    f: "l_face (indeterminate w l) =
      \<lparr>vertexIndices = Array3 a0 a1 a2, textureIndices = Array3 b0 b1 b2,
       normalIndices = Array3 c0 c1 c2\<rparr>"
    by (rule Face_shape)
  have p: "\<exists>t n. faces (self (load_line w d l st ''f 1 2 3'')) = faces (self st) @
         [\<lparr>vertexIndices = Array3 0 1 2, textureIndices = t, normalIndices = n\<rparr>]"
    by (simp add: load_line_def face_line_prefix f read_Face_plain)
  have q: "\<exists>t n. faces (self (load_line w d l st ''f 3 2 1'')) = faces (self st) @
         [\<lparr>vertexIndices = areverse (Array3 0 1 2), textureIndices = t, normalIndices = n\<rparr>]"
    by (simp add: load_line_def face_line_prefix f read_Face_turned)
  show ?thesis
    by (intro conjI, rule total, rule ret, rule p, rule q)
qed


theorem C8_order_preserved_witness:
  "all_in_range (fst (ObjLoader_new (sample_world 1) ''plain/turn.obj'' 1 []))
   \<and> faces (fst (ObjLoader_new (sample_world 1) ''plain/turn.obj'' 1 [])) =
       [\<lparr>vertexIndices = Array3 0 1 2, textureIndices = Array3 0 0 0,
         normalIndices = Array3 0 0 0\<rparr>,
        \<lparr>vertexIndices = Array3 2 1 0, textureIndices = Array3 0 0 0,
         normalIndices = Array3 0 0 0\<rparr>]
   \<and> getTriangles (fst (ObjLoader_new (sample_world 1) ''plain/turn.obj'' 1 [])) =
       Triangles
        [\<lparr>tri_vertices = Array3 (sample_vertex 1 0 0 0) (sample_vertex 1 1 0 0)
            (sample_vertex 1 0 1 0),
          tri_normals = Array3 \<lparr>nx = 0, ny = 0, nz = 1\<rparr> \<lparr>nx = 0, ny = 0, nz = 1\<rparr>
            \<lparr>nx = 0, ny = 0, nz = 1\<rparr>,
          tri_textures = Array3 \<lparr>tu = 5, tv = 6\<rparr> \<lparr>tu = 5, tv = 6\<rparr> \<lparr>tu = 5, tv = 6\<rparr>\<rparr>,
         \<lparr>tri_vertices = Array3 (sample_vertex 1 0 1 0) (sample_vertex 1 1 0 0)
            (sample_vertex 1 0 0 0),
          tri_normals = Array3 \<lparr>nx = 0, ny = 0, nz = 1\<rparr> \<lparr>nx = 0, ny = 0, nz = 1\<rparr>
            \<lparr>nx = 0, ny = 0, nz = 1\<rparr>,
          tri_textures = Array3 \<lparr>tu = 5, tv = 6\<rparr> \<lparr>tu = 5, tv = 6\<rparr> \<lparr>tu = 5, tv = 6\<rparr>\<rparr>]"
proof -
  let ?obj = "fst (ObjLoader_new (sample_world 1) ''plain/turn.obj'' 1 [])"
  have a: "all_in_range ?obj" by code_simp
  have f: "faces ?obj =
       [\<lparr>vertexIndices = Array3 0 1 2, textureIndices = Array3 0 0 0,
         normalIndices = Array3 0 0 0\<rparr>,
        \<lparr>vertexIndices = Array3 2 1 0, textureIndices = Array3 0 0 0,
         normalIndices = Array3 0 0 0\<rparr>]"
    by code_simp
  have m: "map (resolved_triangle ?obj) (faces ?obj) =
        [\<lparr>tri_vertices = Array3 (sample_vertex 1 0 0 0) (sample_vertex 1 1 0 0)
            (sample_vertex 1 0 1 0),
          tri_normals = Array3 \<lparr>nx = 0, ny = 0, nz = 1\<rparr> \<lparr>nx = 0, ny = 0, nz = 1\<rparr>
            \<lparr>nx = 0, ny = 0, nz = 1\<rparr>,
          tri_textures = Array3 \<lparr>tu = 5, tv = 6\<rparr> \<lparr>tu = 5, tv = 6\<rparr> \<lparr>tu = 5, tv = 6\<rparr>\<rparr>,
         \<lparr>tri_vertices = Array3 (sample_vertex 1 0 1 0) (sample_vertex 1 1 0 0)
            (sample_vertex 1 0 0 0),
          tri_normals = Array3 \<lparr>nx = 0, ny = 0, nz = 1\<rparr> \<lparr>nx = 0, ny = 0, nz = 1\<rparr>
            \<lparr>nx = 0, ny = 0, nz = 1\<rparr>,
          tri_textures = Array3 \<lparr>tu = 5, tv = 6\<rparr> \<lparr>tu = 5, tv = 6\<rparr> \<lparr>tu = 5, tv = 6\<rparr>\<rparr>]"
    by code_simp
  have g: "getTriangles ?obj = Triangles (map (resolved_triangle ?obj) (faces ?obj))"
    by (rule C8_order_preserved [of ?obj, THEN conjunct1, rule_format, OF a])
  show ?thesis
    by (intro conjI, rule a, rule f, simp only: g m)
qed

section \<open>File names without a directory part\<close>





end
